theory Spec2Isabelle
  imports Main "HOL-Library.Word"
begin

section \<open>Storage types and operator codes\<close>

text \<open>
  Modelled from the spec: the enum \<^verbatim>\<open>SType\<close> is declared in a header that
  \<^verbatim>\<open>base_expr.cc\<close> only includes. The spec gives it as the ordered enumeration
  BOOL, INT8, INT16, INT32, INT64, FLOAT32, FLOAT64, STR32, STR64, OBJECT; \<open>stype_id\<close> is
  \<^verbatim>\<open>static_cast<size_t>(st)\<close>, here the position in that declared order.
\<close>

datatype SType = BOOL | INT8 | INT16 | INT32 | INT64 | FLOAT32 | FLOAT64 | STR32 | STR64 | OBJECT

fun stype_id :: "SType \<Rightarrow> nat" where
  "stype_id BOOL = 1"
| "stype_id INT8 = 2"
| "stype_id INT16 = 3"
| "stype_id INT32 = 4"
| "stype_id INT64 = 5"
| "stype_id FLOAT32 = 6"
| "stype_id FLOAT64 = 7"
| "stype_id STR32 = 8"
| "stype_id STR64 = 9"
| "stype_id OBJECT = 10"

text \<open>
  The comparison of two storage types (as \<^verbatim>\<open>std::max(st1, st2)\<close> needs it) is the
  comparison of their underlying values, so \<open>max\<close> on \<open>SType\<close> is \<^verbatim>\<open>std::max\<close>.
\<close>

instantiation SType :: linorder
begin

definition less_eq_SType :: "SType \<Rightarrow> SType \<Rightarrow> bool" where
  "less_eq_SType a b = (stype_id a \<le> stype_id b)"

definition less_SType :: "SType \<Rightarrow> SType \<Rightarrow> bool" where
  "less_SType a b = (stype_id a < stype_id b)"

instance
proof
  fix x y z :: SType
  show "(x < y) = (x \<le> y \<and> \<not> y \<le> x)"
    by (auto simp: less_eq_SType_def less_SType_def)
  show "x \<le> x"
    by (simp add: less_eq_SType_def)
  show "x \<le> y \<Longrightarrow> y \<le> z \<Longrightarrow> x \<le> z"
    by (simp add: less_eq_SType_def)
  show "x \<le> y \<Longrightarrow> y \<le> x \<Longrightarrow> x = y"
    by (cases x; cases y; simp add: less_eq_SType_def)
  show "x \<le> y \<or> y \<le> x"
    by (auto simp: less_eq_SType_def)
qed

end

text \<open>
  Modelled from the spec: the enums \<^verbatim>\<open>biop\<close> and \<^verbatim>\<open>unop\<close> are declared in
  \<^verbatim>\<open>expr/base_expr.h\<close>. The spec lists their members; the codes are the positions in
  those lists counted from 1, which is what \<^verbatim>\<open>binop_names.resize(18)\<close> for seventeen
  operators and \<^verbatim>\<open>unop_names.resize(1 + id(unop::LEN))\<close> in the source fit.
\<close>

datatype biop = PLUS | MINUS | MULTIPLY | DIVIDE | INT_DIVIDE | POWER | MODULO
  | LOGICAL_AND | LOGICAL_OR | LEFT_SHIFT | RIGHT_SHIFT
  | REL_EQ | REL_NE | REL_LT | REL_GT | REL_LE | REL_GE

fun biop_code :: "biop \<Rightarrow> nat" where
  "biop_code PLUS = 1"
| "biop_code MINUS = 2"
| "biop_code MULTIPLY = 3"
| "biop_code DIVIDE = 4"
| "biop_code INT_DIVIDE = 5"
| "biop_code POWER = 6"
| "biop_code MODULO = 7"
| "biop_code LOGICAL_AND = 8"
| "biop_code LOGICAL_OR = 9"
| "biop_code LEFT_SHIFT = 10"
| "biop_code RIGHT_SHIFT = 11"
| "biop_code REL_EQ = 12"
| "biop_code REL_NE = 13"
| "biop_code REL_LT = 14"
| "biop_code REL_GT = 15"
| "biop_code REL_LE = 16"
| "biop_code REL_GE = 17"

datatype unop = ISNA | UMINUS | UPLUS | INVERT | ABS | EXP | LOGE | LOG10 | LEN

fun unop_code :: "unop \<Rightarrow> nat" where
  "unop_code ISNA = 1"
| "unop_code UMINUS = 2"
| "unop_code UPLUS = 3"
| "unop_code INVERT = 4"
| "unop_code ABS = 5"
| "unop_code EXP = 6"
| "unop_code LOGE = 7"
| "unop_code LOG10 = 8"
| "unop_code LEN = 9"

section \<open>The type-rule tables\<close>

text \<open>
  A \<^verbatim>\<open>size_t\<close> is a natural number below \<open>2 ^ 64\<close>; the shifts and sums that build a
  table key wrap around at that width.
\<close>

definition size_t_max :: nat where
  "size_t_max = 2 ^ 64 - 1"

text \<open>\<^verbatim>\<open>id(biop opcode)\<close>: the index of an operator in \<^verbatim>\<open>binop_names\<close>.\<close>

definition id_biop :: "biop \<Rightarrow> nat" where
  "id_biop opcode = biop_code opcode"

text \<open>
  \<^verbatim>\<open>id(biop opcode, SType st1, SType st2)\<close>. The first argument is the operator's
  numeric value: \<^verbatim>\<open>resolve\<close> passes \<^verbatim>\<open>static_cast<biop>(binop_code)\<close> for the
  \<^verbatim>\<open>size_t\<close> it stores.
\<close>

definition id_binop :: "nat \<Rightarrow> SType \<Rightarrow> SType \<Rightarrow> nat" where
  "id_binop opcode st1 st2 =
     ((opcode * 2 ^ 16) mod 2 ^ 64 + (stype_id st1 * 2 ^ 8) mod 2 ^ 64 + stype_id st2) mod 2 ^ 64"

definition id_unop :: "unop \<Rightarrow> nat" where
  "id_unop opcode = unop_code opcode"

definition id_unop_st :: "nat \<Rightarrow> SType \<Rightarrow> nat" where
  "id_unop_st opcode st1 = ((opcode * 2 ^ 8) mod 2 ^ 64 + stype_id st1) mod 2 ^ 64"

type_synonym rules = "nat \<rightharpoonup> SType"

definition integer_stypes :: "SType list" where
  "integer_stypes = [INT8, INT16, INT32, INT64]"

definition numeric_stypes :: "SType list" where
  "numeric_stypes = [BOOL, INT8, INT16, INT32, INT64, FLOAT32, FLOAT64]"

definition string_types :: "SType list" where
  "string_types = [STR32, STR64]"

definition all_stypes :: "SType list" where
  "all_stypes = [BOOL, INT8, INT16, INT32, INT64, FLOAT32, FLOAT64, STR32, STR64]"

text \<open>The body of the first loop nest of \<^verbatim>\<open>init_binops\<close>, for one pair of numeric types.\<close>

definition binop_numeric_body :: "SType \<Rightarrow> SType \<Rightarrow> rules \<Rightarrow> rules" where
  "binop_numeric_body st1 st2 m =
     (let stm = max st1 st2 in
      m(id_binop (biop_code PLUS) st1 st2 \<mapsto> stm,
        id_binop (biop_code MINUS) st1 st2 \<mapsto> stm,
        id_binop (biop_code MULTIPLY) st1 st2 \<mapsto> stm,
        id_binop (biop_code POWER) st1 st2 \<mapsto> stm,
        id_binop (biop_code DIVIDE) st1 st2 \<mapsto> FLOAT64,
        id_binop (biop_code REL_EQ) st1 st2 \<mapsto> BOOL,
        id_binop (biop_code REL_NE) st1 st2 \<mapsto> BOOL,
        id_binop (biop_code REL_LT) st1 st2 \<mapsto> BOOL,
        id_binop (biop_code REL_GT) st1 st2 \<mapsto> BOOL,
        id_binop (biop_code REL_LE) st1 st2 \<mapsto> BOOL,
        id_binop (biop_code REL_GE) st1 st2 \<mapsto> BOOL))"

text \<open>The body of the second loop nest, for one pair of integer types.\<close>

definition binop_integer_body :: "SType \<Rightarrow> SType \<Rightarrow> rules \<Rightarrow> rules" where
  "binop_integer_body st1 st2 m =
     (let stm = max st1 st2 in
      m(id_binop (biop_code INT_DIVIDE) st1 st2 \<mapsto> stm,
        id_binop (biop_code MODULO) st1 st2 \<mapsto> stm,
        id_binop (biop_code LEFT_SHIFT) st1 st2 \<mapsto> stm,
        id_binop (biop_code RIGHT_SHIFT) st1 st2 \<mapsto> stm))"

text \<open>The body of the third loop nest, for one pair of string types.\<close>

definition binop_string_body :: "SType \<Rightarrow> SType \<Rightarrow> rules \<Rightarrow> rules" where
  "binop_string_body st1 st2 m =
     m(id_binop (biop_code REL_EQ) st1 st2 \<mapsto> BOOL,
       id_binop (biop_code REL_NE) st1 st2 \<mapsto> BOOL)"

text \<open>
  \<^verbatim>\<open>init_binops\<close> writes into the global \<^verbatim>\<open>binop_rules\<close>; the table it is run on is
  an argument here, and the table of the program is the one built from the empty map.
\<close>

definition init_binops :: "rules \<Rightarrow> rules" where
  "init_binops m0 =
     (let m1 = fold (\<lambda>st1. fold (\<lambda>st2. binop_numeric_body st1 st2) numeric_stypes) numeric_stypes m0;
          m2 = fold (\<lambda>st1. fold (\<lambda>st2. binop_integer_body st1 st2) integer_stypes) integer_stypes m1;
          m3 = fold (\<lambda>st1. fold (\<lambda>st2. binop_string_body st1 st2) string_types) string_types m2;
          m4 = m3(id_binop (biop_code LOGICAL_AND) BOOL BOOL \<mapsto> BOOL);
          m5 = m4(id_binop (biop_code LOGICAL_OR) BOOL BOOL \<mapsto> BOOL)
      in m5)"

definition binop_rules :: rules where
  "binop_rules = init_binops Map.empty"

text \<open>
  \<^verbatim>\<open>binop_names\<close> after \<^verbatim>\<open>init_binops\<close>: eighteen strings, the one at an operator's
  code its display symbol.
\<close>

definition binop_names :: "string list" where
  "binop_names =
     (replicate 18 [])
       [id_biop PLUS := ''+'', id_biop MINUS := ''-'', id_biop MULTIPLY := ''*'',
        id_biop DIVIDE := ''/'', id_biop INT_DIVIDE := ''//'', id_biop POWER := ''**'',
        id_biop MODULO := ''%'', id_biop LOGICAL_AND := ''&'', id_biop LOGICAL_OR := ''|'',
        id_biop LEFT_SHIFT := ''<<'', id_biop RIGHT_SHIFT := ''>>'', id_biop REL_EQ := ''=='',
        id_biop REL_NE := ''!='', id_biop REL_GT := ''>'', id_biop REL_LT := ''<'',
        id_biop REL_GE := ''>='', id_biop REL_LE := ''<='']"

text \<open>The loops of \<^verbatim>\<open>init_unops\<close>, and the single entries written after them.\<close>

definition unop_numeric_body :: "SType \<Rightarrow> rules \<Rightarrow> rules" where
  "unop_numeric_body st m =
     m(id_unop_st (unop_code UMINUS) st \<mapsto> st,
       id_unop_st (unop_code UPLUS) st \<mapsto> st,
       id_unop_st (unop_code ABS) st \<mapsto> st,
       id_unop_st (unop_code EXP) st \<mapsto> FLOAT64,
       id_unop_st (unop_code LOGE) st \<mapsto> FLOAT64,
       id_unop_st (unop_code LOG10) st \<mapsto> FLOAT64)"

definition init_unops :: "rules \<Rightarrow> rules" where
  "init_unops m0 =
     (let m1 = fold (\<lambda>st m. m(id_unop_st (unop_code ISNA) st \<mapsto> BOOL)) all_stypes m0;
          m2 = fold (\<lambda>st m. m(id_unop_st (unop_code INVERT) st \<mapsto> st)) integer_stypes m1;
          m3 = fold unop_numeric_body numeric_stypes m2;
          m4 = m3(id_unop_st (unop_code UMINUS) BOOL \<mapsto> INT8);
          m5 = m4(id_unop_st (unop_code UPLUS) BOOL \<mapsto> INT8);
          m6 = m5(id_unop_st (unop_code ABS) BOOL \<mapsto> INT8);
          m7 = m6(id_unop_st (unop_code INVERT) BOOL \<mapsto> BOOL);
          m8 = m7(id_unop_st (unop_code LEN) STR32 \<mapsto> INT32);
          m9 = m8(id_unop_st (unop_code LEN) STR64 \<mapsto> INT64)
      in m9)"

definition unop_rules :: rules where
  "unop_rules = init_unops Map.empty"

definition unop_names :: "string list" where
  "unop_names =
     (replicate (1 + id_unop LEN) [])
       [id_unop ISNA := ''isna'', id_unop UMINUS := ''-'', id_unop UPLUS := ''+'',
        id_unop INVERT := ''~'', id_unop ABS := ''abs'', id_unop EXP := ''exp'',
        id_unop LOGE := ''log'', id_unop LOG10 := ''log10'', id_unop LEN := ''len'']"

section \<open>Errors\<close>

text \<open>
  The exceptions the code throws, with what each message is built from. \<open>Undefined\<close>
  stands for the places where the C++ reads through an index or a pointer that it has not
  checked and that is out of range or null: the program has no defined result there.
  \<open>ConversionError\<close> is what a conversion of \<^verbatim>\<open>py::robj\<close> (not part of this file)
  raises on an object it refuses.
\<close>

datatype message =
    NonExistingFrame
  | InvalidColumnIndex int int
  | UnknownColumnName string
  | BinaryOperatorMismatch string SType SType
  | UnaryOperatorMismatch string SType
  | WrongArgsCount nat nat
  | NotBaseExpr

datatype error =
    ValueError message
  | TypeError message
  | AssertionError
  | ConversionError
  | Undefined

section \<open>Columns, frames and the work-frame\<close>

text \<open>
  Modelled from the spec: \<^verbatim>\<open>Column\<close>, \<^verbatim>\<open>DataTable\<close>, \<^verbatim>\<open>RowIndex\<close>,
  \<^verbatim>\<open>Groupby\<close>, \<^verbatim>\<open>by_node\<close> and \<^verbatim>\<open>workframe\<close> are classes of other files. A
  column is a typed sequence of values with an optional row selection of its own; a frame
  is a table of named columns; a work-frame holds an ordered sequence of frames with a row
  selection per frame, its row count, and an optional grouping: the grouping key columns
  and the group boundaries, an array of \<^verbatim>\<open>int32_t\<close> offsets with one entry more than
  there are groups.
\<close>

type_synonym RowIndex = "nat list option"

record Column =
  stype :: SType
  data :: "int list"
  rowindex :: RowIndex

type_synonym colptr = "Column option"

record DataTable =
  columns :: "Column list"
  names :: "string list"

definition ncols :: "DataTable \<Rightarrow> nat" where
  "ncols dt = length (columns dt)"

text \<open>
  \<^verbatim>\<open>dt->xcolindex(name)\<close>: the index of the column of that name. Modelled from the
  spec, as the rest of the frame: an invalid column name is a ValueError of the name lookup.
\<close>

fun find_name :: "string list \<Rightarrow> string \<Rightarrow> nat \<Rightarrow> nat option" where
  "find_name [] name i = None"
| "find_name (n # ns) name i = (if n = name then Some i else find_name ns name (i + 1))"

definition xcolindex :: "DataTable \<Rightarrow> string \<Rightarrow> error + nat" where
  "xcolindex dt name =
     (case find_name (names dt) name 0 of
        None \<Rightarrow> Inl (ValueError (UnknownColumnName name))
      | Some i \<Rightarrow> Inr i)"

record grouping =
  group_columns :: "nat list"
  offsets :: "32 word list"

definition ngroups :: "grouping \<Rightarrow> nat" where
  "ngroups g = length (offsets g) - 1"

definition has_group_column :: "grouping \<Rightarrow> nat \<Rightarrow> bool" where
  "has_group_column g i = (i \<in> set (group_columns g))"

record workframe =
  frames :: "(DataTable \<times> RowIndex) list"
  nrows :: nat
  groupby :: "grouping option"

definition nframes :: "workframe \<Rightarrow> nat" where
  "nframes wfm = length (frames wfm)"

definition get_datatable :: "workframe \<Rightarrow> nat \<Rightarrow> DataTable" where
  "get_datatable wfm i = fst (frames wfm ! i)"

definition get_rowindex :: "workframe \<Rightarrow> nat \<Rightarrow> RowIndex" where
  "get_rowindex wfm i = snd (frames wfm ! i)"

definition has_groupby :: "workframe \<Rightarrow> bool" where
  "has_groupby wfm = (groupby wfm \<noteq> None)"

text \<open>The two integer casts the code writes, at 64 bits.\<close>

definition cast_int64 :: "nat \<Rightarrow> int" where
  "cast_int64 n = (if n mod 2 ^ 64 < 2 ^ 63 then int (n mod 2 ^ 64) else int (n mod 2 ^ 64) - 2 ^ 64)"

definition cast_size_t :: "int \<Rightarrow> nat" where
  "cast_size_t i = nat (i mod 2 ^ 64)"

section \<open>Expression nodes\<close>

text \<open>
  The column selector of a column node is a \<^verbatim>\<open>py::robj\<close>, of which the code asks
  \<^verbatim>\<open>is_int()\<close> and \<^verbatim>\<open>is_string()\<close>. An integer selector is held as the
  \<^verbatim>\<open>int64_t\<close> that \<^verbatim>\<open>to_int64_strict()\<close> returns for it.
\<close>

datatype selector = SelInt "64 word" | SelStr string | SelOther

definition to_int64_strict :: "64 word \<Rightarrow> int" where
  "to_int64_strict v = sint v"

text \<open>
  The node classes of \<^verbatim>\<open>base_expr.cc\<close>, each with its fields. An operator code is
  kept as the \<^verbatim>\<open>size_t\<close> the constructor receives.
\<close>

datatype expr =
    Expr_column nat nat selector
  | Expr_binaryop nat expr expr
  | Expr_literal Column
  | Expr_unaryop nat expr
  | Expr_cast expr SType
  | Expr_reduce_nullary nat

text \<open>The constructor of a column node: the column index starts as \<^verbatim>\<open>size_t(-1)\<close>.\<close>

definition expr_column :: "nat \<Rightarrow> selector \<Rightarrow> expr" where
  "expr_column dfid col = Expr_column dfid size_t_max col"

text \<open>
  Modelled from the spec: the macro \<^verbatim>\<open>xassert\<close> is defined in another file; the spec
  describes a failed one as an assertion failure.

  \<^verbatim>\<open>get_col_index\<close> returns the node as it leaves it together with the index or the
  exception. The base class returns \<^verbatim>\<open>size_t(-1)\<close>.
\<close>

definition xassert_col_id :: "DataTable \<Rightarrow> nat \<Rightarrow> nat \<Rightarrow> selector \<Rightarrow> expr \<times> (error + nat)" where
  "xassert_col_id dt fid cid sel =
     (if cid < ncols dt then (Expr_column fid cid sel, Inr cid)
      else (Expr_column fid cid sel, Inl AssertionError))"

fun get_col_index :: "workframe \<Rightarrow> expr \<Rightarrow> expr \<times> (error + nat)" where
  "get_col_index wfm (Expr_column fid cid sel) =
     (if cid = size_t_max then
        (if fid \<ge> nframes wfm then (Expr_column fid cid sel, Inl (ValueError NonExistingFrame))
         else
           (let dt = get_datatable wfm fid in
            case sel of
              SelInt v \<Rightarrow>
                (let icolid = to_int64_strict v;
                     incols = cast_int64 (ncols dt)
                 in if icolid < - incols \<or> icolid \<ge> incols
                    then (Expr_column fid cid sel, Inl (ValueError (InvalidColumnIndex icolid incols)))
                    else xassert_col_id dt fid
                           (cast_size_t (if icolid < 0 then icolid + incols else icolid)) sel)
            | SelStr name \<Rightarrow>
                (case xcolindex dt name of
                   Inl err \<Rightarrow> (Expr_column fid cid sel, Inl err)
                 | Inr i \<Rightarrow> xassert_col_id dt fid i sel)
            | SelOther \<Rightarrow> xassert_col_id dt fid cid sel))
      else (Expr_column fid cid sel, Inr cid))"
| "get_col_index wfm e = (e, Inr size_t_max)"

text \<open>
  \<^verbatim>\<open>resolve\<close>, for every node class of the file. It returns the node as it leaves it
  (only a column node changes: its cached index) and the storage type or the exception.
\<close>

fun resolve :: "workframe \<Rightarrow> expr \<Rightarrow> expr \<times> (error + SType)" where
  "resolve wfm (Expr_column fid cid sel) =
     (case get_col_index wfm (Expr_column fid cid sel) of
        (e', Inl err) \<Rightarrow> (e', Inl err)
      | (e', Inr i) \<Rightarrow>
          (if fid < nframes wfm \<and> i < ncols (get_datatable wfm fid)
           then (e', Inr (stype (columns (get_datatable wfm fid) ! i)))
           else (e', Inl Undefined)))"
| "resolve wfm (Expr_binaryop opc l r) =
     (case resolve wfm l of
        (l', Inl err) \<Rightarrow> (Expr_binaryop opc l' r, Inl err)
      | (l', Inr lhs_stype) \<Rightarrow>
          (case resolve wfm r of
             (r', Inl err) \<Rightarrow> (Expr_binaryop opc l' r', Inl err)
           | (r', Inr rhs_stype) \<Rightarrow>
               (case binop_rules (id_binop opc lhs_stype rhs_stype) of
                  None \<Rightarrow>
                    (Expr_binaryop opc l' r',
                     if opc < length binop_names
                     then Inl (TypeError (BinaryOperatorMismatch (binop_names ! opc) lhs_stype rhs_stype))
                     else Inl Undefined)
                | Some st \<Rightarrow> (Expr_binaryop opc l' r', Inr st))))"
| "resolve wfm (Expr_literal c) = (Expr_literal c, Inr (stype c))"
| "resolve wfm (Expr_unaryop opc a) =
     (case resolve wfm a of
        (a', Inl err) \<Rightarrow> (Expr_unaryop opc a', Inl err)
      | (a', Inr arg_stype) \<Rightarrow>
          (case unop_rules (id_unop_st opc arg_stype) of
             None \<Rightarrow>
               (Expr_unaryop opc a',
                if opc < length unop_names
                then Inl (TypeError (UnaryOperatorMismatch (unop_names ! opc) arg_stype))
                else Inl Undefined)
           | Some st \<Rightarrow> (Expr_unaryop opc a', Inr st)))"
| "resolve wfm (Expr_cast a st) =
     (case resolve wfm a of
        (a', Inl err) \<Rightarrow> (Expr_cast a' st, Inl err)
      | (a', Inr _) \<Rightarrow> (Expr_cast a' st, Inr st))"
| "resolve wfm (Expr_reduce_nullary opc) = (Expr_reduce_nullary opc, Inr INT64)"

section \<open>The grouping mode\<close>

text \<open>
  Modelled from the spec: the enum \<^verbatim>\<open>GroupbyMode\<close> is declared in another file. The
  two modes the code uses are \<^verbatim>\<open>GtoONE\<close> (the spec's PerGroup) and \<^verbatim>\<open>GtoALL\<close>
  (PerRow), ordered PerGroup below PerRow; \<open>mode_code\<close> is the cast to \<^verbatim>\<open>uint8_t\<close>
  and \<open>mode_of_code\<close> the cast back.
\<close>

datatype GroupbyMode = GtoONE | GtoALL

fun mode_code :: "GroupbyMode \<Rightarrow> nat" where
  "mode_code GtoONE = 1"
| "mode_code GtoALL = 2"

definition mode_of_code :: "nat \<Rightarrow> GroupbyMode" where
  "mode_of_code c = (if c = mode_code GtoONE then GtoONE else GtoALL)"

fun get_groupby_mode :: "workframe \<Rightarrow> expr \<Rightarrow> GroupbyMode" where
  "get_groupby_mode wfm (Expr_column fid cid sel) =
     (if fid = 0 \<and> has_groupby wfm \<and>
         (case groupby wfm of None \<Rightarrow> False | Some g \<Rightarrow> has_group_column g cid)
      then GtoONE else GtoALL)"
| "get_groupby_mode wfm (Expr_binaryop opc l r) =
     (let lmode = mode_code (get_groupby_mode wfm l);
          rmode = mode_code (get_groupby_mode wfm r)
      in mode_of_code (max lmode rmode))"
| "get_groupby_mode wfm (Expr_literal c) = GtoONE"
| "get_groupby_mode wfm (Expr_unaryop opc a) = get_groupby_mode wfm a"
| "get_groupby_mode wfm (Expr_cast a st) = get_groupby_mode wfm a"
| "get_groupby_mode wfm (Expr_reduce_nullary opc) = GtoONE"

section \<open>Eager evaluation\<close>

text \<open>
  The kernels and the row-index product that \<^verbatim>\<open>evaluate_eager\<close> calls are functions of
  other files; they are arguments here. A \<^verbatim>\<open>colptr\<close> may be null.
\<close>

record kernels =
  k_binaryop :: "nat \<Rightarrow> colptr \<Rightarrow> colptr \<Rightarrow> error + colptr"
  k_unaryop :: "nat \<Rightarrow> colptr \<Rightarrow> error + colptr"
  k_cast :: "Column \<Rightarrow> SType \<Rightarrow> error + colptr"
  k_product :: "RowIndex \<Rightarrow> RowIndex \<Rightarrow> RowIndex"

text \<open>
  \<^verbatim>\<open>Column::new_data_column(stype, n)\<close>: a column of \<open>n\<close> elements, which the caller
  then writes.
\<close>

definition new_data_column :: "SType \<Rightarrow> nat \<Rightarrow> Column" where
  "new_data_column st n = \<lparr>stype = st, data = replicate n 0, rowindex = None\<rparr>"

text \<open>
  The loop \<^verbatim>\<open>for (size_t i = 0; i < ng; ++i) d_res[i] = offsets[i + 1] - offsets[i]\<close>.
  The offsets and the elements of \<^verbatim>\<open>d_res\<close> are \<^verbatim>\<open>int32_t\<close>: the difference is
  taken at 32 bits, where it wraps around, and the column holds its signed value.
\<close>

function count_loop :: "32 word list \<Rightarrow> nat \<Rightarrow> nat \<Rightarrow> int list \<Rightarrow> int list" where
  "count_loop offs ng i d_res =
     (if i < ng then count_loop offs ng (i + 1) (d_res[i := sint (offs ! (i + 1) - offs ! i)])
      else d_res)"
  by pat_completeness auto
termination
  by (relation "measure (\<lambda>(offs, ng, i, d_res). ng - i)") auto

declare count_loop.simps [simp del]

fun evaluate_eager :: "kernels \<Rightarrow> workframe \<Rightarrow> expr \<Rightarrow> error + colptr" where
  "evaluate_eager K wfm (Expr_column fid cid sel) =
     (if fid < nframes wfm \<and> cid < ncols (get_datatable wfm fid) then
        (let dt = get_datatable wfm fid;
             rcol = columns dt ! cid;
             dt_ri = get_rowindex wfm fid;
             col_ri = rowindex rcol
         in if dt_ri \<noteq> None
            then Inr (Some (rcol\<lparr>rowindex := k_product K dt_ri col_ri\<rparr>))
            else Inr (Some rcol))
      else Inl Undefined)"
| "evaluate_eager K wfm (Expr_binaryop opc l r) =
     (case evaluate_eager K wfm l of
        Inl err \<Rightarrow> Inl err
      | Inr lhs_res \<Rightarrow>
          (case evaluate_eager K wfm r of
             Inl err \<Rightarrow> Inl err
           | Inr rhs_res \<Rightarrow> k_binaryop K opc lhs_res rhs_res))"
| "evaluate_eager K wfm (Expr_literal c) = Inr (Some c)"
| "evaluate_eager K wfm (Expr_unaryop opc a) =
     (case evaluate_eager K wfm a of
        Inl err \<Rightarrow> Inl err
      | Inr arg_res \<Rightarrow> k_unaryop K opc arg_res)"
| "evaluate_eager K wfm (Expr_cast a st) =
     (case evaluate_eager K wfm a of
        Inl err \<Rightarrow> Inl err
      | Inr None \<Rightarrow> Inl Undefined
      | Inr (Some arg_col) \<Rightarrow> k_cast K arg_col st)"
| "evaluate_eager K wfm (Expr_reduce_nullary opc) =
     (if opc = 0 then
        (case groupby wfm of
           Some grpby \<Rightarrow>
             (let ng = ngroups grpby;
                  res = new_data_column INT32 ng
              in Inr (Some (res\<lparr>data := count_loop (offsets grpby) ng 0 (data res)\<rparr>)))
         | None \<Rightarrow>
             (let res = new_data_column INT64 1
              in Inr (Some (res\<lparr>data := (data res)[0 := cast_int64 (nrows wfm)]\<rparr>))))
      else Inr None)"

section \<open>The node factory\<close>

text \<open>
  An argument of \<^verbatim>\<open>py::base_expr::m__init__\<close> is a Python object: an integer, a
  string, a \<^verbatim>\<open>base_expr\<close> object holding a node pointer of type \<open>'e\<close> (which
  \<^verbatim>\<open>release()\<close> hands over), or an object of another type. \<^verbatim>\<open>to_size_t\<close> is a
  conversion of \<^verbatim>\<open>py::robj\<close>: it yields the value of an integer that fits a
  \<^verbatim>\<open>size_t\<close>.
\<close>

datatype 'e pyobj = PyInt int | PyStr string | PyBaseExpr 'e | PyOther

fun to_size_t :: "'e pyobj \<Rightarrow> error + nat" where
  "to_size_t (PyInt n) = (if 0 \<le> n \<and> n < 2 ^ 64 then Inr (nat n) else Inl ConversionError)"
| "to_size_t x = Inl ConversionError"

text \<open>
  Modelled from the spec: the enum \<^verbatim>\<open>exprCode\<close> is declared in another file; its
  members are the node kinds of the construction contract, numbered from 1 in the order of
  the \<^verbatim>\<open>switch\<close>.
\<close>

datatype exprCode = COL | BINOP | LITERAL | UNOP | CAST | UNREDUCE | NUREDUCE | STRINGFN

fun expr_code :: "exprCode \<Rightarrow> nat" where
  "expr_code COL = 1"
| "expr_code BINOP = 2"
| "expr_code LITERAL = 3"
| "expr_code UNOP = 4"
| "expr_code CAST = 5"
| "expr_code UNREDUCE = 6"
| "expr_code NUREDUCE = 7"
| "expr_code STRINGFN = 8"

text \<open>
  What \<^verbatim>\<open>m__init__\<close> (here \<open>m_init\<close>) leaves in \<^verbatim>\<open>expr\<close>: the constructor it called with the
  converted arguments, or the null pointer it started from.
\<close>

datatype 'e built =
    New_expr_column nat "'e pyobj"
  | New_expr_binaryop nat 'e 'e
  | New_expr_literal "'e pyobj"
  | New_expr_unaryop nat 'e
  | New_expr_cast 'e nat
  | New_expr_reduce 'e nat
  | New_expr_reduce_nullary nat
  | New_expr_string_fn nat 'e "'e pyobj"
  | Null_expr

definition check_args_count :: "'e pyobj list \<Rightarrow> nat \<Rightarrow> error + unit" where
  "check_args_count va n =
     (if length va = n then Inr () else Inl (TypeError (WrongArgsCount n (length va))))"

fun to_base_expr :: "'e pyobj \<Rightarrow> error + 'e" where
  "to_base_expr (PyBaseExpr e) = Inr e"
| "to_base_expr x = Inl (TypeError NotBaseExpr)"

text \<open>Sequencing of calls that may throw.\<close>

definition and_then :: "error + 'a \<Rightarrow> ('a \<Rightarrow> error + 'b) \<Rightarrow> error + 'b" where
  "and_then r f = (case r of Inl err \<Rightarrow> Inl err | Inr v \<Rightarrow> f v)"

definition m_init :: "nat \<Rightarrow> 'e pyobj list \<Rightarrow> error + 'e built" where
  "m_init opcode va =
     (if opcode = expr_code COL then
        and_then (check_args_count va 2) (\<lambda>_.
        and_then (to_size_t (va ! 0)) (\<lambda>dfid.
        Inr (New_expr_column dfid (va ! 1))))
      else if opcode = expr_code BINOP then
        and_then (check_args_count va 3) (\<lambda>_.
        and_then (to_size_t (va ! 0)) (\<lambda>binop_code.
        and_then (to_base_expr (va ! 1)) (\<lambda>lhs.
        and_then (to_base_expr (va ! 2)) (\<lambda>rhs.
        Inr (New_expr_binaryop binop_code lhs rhs)))))
      else if opcode = expr_code LITERAL then
        and_then (check_args_count va 1) (\<lambda>_.
        Inr (New_expr_literal (va ! 0)))
      else if opcode = expr_code UNOP then
        and_then (check_args_count va 2) (\<lambda>_.
        and_then (to_size_t (va ! 0)) (\<lambda>unop_code.
        and_then (to_base_expr (va ! 1)) (\<lambda>arg.
        Inr (New_expr_unaryop unop_code arg))))
      else if opcode = expr_code CAST then
        and_then (check_args_count va 2) (\<lambda>_.
        and_then (to_base_expr (va ! 0)) (\<lambda>arg.
        and_then (to_size_t (va ! 1)) (\<lambda>stype_code.
        Inr (New_expr_cast arg stype_code))))
      else if opcode = expr_code UNREDUCE then
        and_then (check_args_count va 2) (\<lambda>_.
        and_then (to_size_t (va ! 0)) (\<lambda>op.
        and_then (to_base_expr (va ! 1)) (\<lambda>arg.
        Inr (New_expr_reduce arg op))))
      else if opcode = expr_code NUREDUCE then
        and_then (check_args_count va 1) (\<lambda>_.
        and_then (to_size_t (va ! 0)) (\<lambda>op.
        if op = 0 then Inr (New_expr_reduce_nullary op) else Inl AssertionError))
      else if opcode = expr_code STRINGFN then
        and_then (check_args_count va 3) (\<lambda>_.
        and_then (to_size_t (va ! 0)) (\<lambda>op.
        and_then (to_base_expr (va ! 1)) (\<lambda>arg.
        Inr (New_expr_string_fn op arg (va ! 2)))))
      else Inr Null_expr)"

section \<open>Table keys and table lookups\<close>

text \<open>
  The key of an operator of the enum and storage types is the plain sum, without wrap-around,
  and two such keys are equal only for the same operator and types. The lookups that follow
  read the table that the loops of \<^verbatim>\<open>init_binops\<close> and \<^verbatim>\<open>init_unops\<close> build.
\<close>

lemma stype_id_bound: "stype_id s < 256"
  by (cases s) simp_all

lemma stype_id_inj: "stype_id a = stype_id b \<longleftrightarrow> a = b"
  by (cases a; cases b; simp)

lemma biop_code_bound: "biop_code opc < 18"
  by (cases opc) simp_all

lemma biop_code_inj: "biop_code a = biop_code b \<longleftrightarrow> a = b"
  by (cases a; cases b; simp)

lemma unop_code_bound: "unop_code opc < 10"
  by (cases opc) simp_all

lemma unop_code_inj: "unop_code a = unop_code b \<longleftrightarrow> a = b"
  by (cases a; cases b; simp)

lemma pack_inj:
  fixes n a n' a' :: nat
  assumes "a < 256" "a' < 256"
  shows "n * 256 + a = n' * 256 + a' \<longleftrightarrow> n = n' \<and> a = a'"
proof
  assume eq: "n * 256 + a = n' * 256 + a'"
  have "(n * 256 + a) mod 256 = a" "(n' * 256 + a') mod 256 = a'"
    using assms by simp_all
  with eq have "a = a'" by simp
  with eq show "n = n' \<and> a = a'" by simp
qed simp

lemma shift_sum3:
  fixes n a b :: nat
  assumes "n < 18" "a < 256" "b < 256"
  shows "((n * 2 ^ 16) mod 2 ^ 64 + (a * 2 ^ 8) mod 2 ^ 64 + b) mod 2 ^ 64 = (n * 256 + a) * 256 + b"
proof -
  have e: "(2::nat) ^ 16 = 65536" "(2::nat) ^ 8 = 256" "(2::nat) ^ 64 = 18446744073709551616"
    by simp_all
  have "n * 65536 < 18446744073709551616" "a * 256 < 18446744073709551616"
       "n * 65536 + a * 256 + b < 18446744073709551616"
    using assms by linarith+
  then have "((n * 2 ^ 16) mod 2 ^ 64 + (a * 2 ^ 8) mod 2 ^ 64 + b) mod 2 ^ 64 = n * 65536 + a * 256 + b"
    by (simp only: e mod_less)
  also have "\<dots> = (n * 256 + a) * 256 + b"
    by simp
  finally show ?thesis .
qed

lemma shift_sum2:
  fixes n a :: nat
  assumes "n < 10" "a < 256"
  shows "((n * 2 ^ 8) mod 2 ^ 64 + a) mod 2 ^ 64 = n * 256 + a"
proof -
  have e: "(2::nat) ^ 8 = 256" "(2::nat) ^ 64 = 18446744073709551616"
    by simp_all
  have "n * 256 < 18446744073709551616" "n * 256 + a < 18446744073709551616"
    using assms by linarith+
  then show ?thesis
    by (simp only: e mod_less)
qed

lemma id_binop_plain:
  "id_binop (biop_code opc) a b = (biop_code opc * 256 + stype_id a) * 256 + stype_id b"
  unfolding id_binop_def
  by (rule shift_sum3 [OF biop_code_bound stype_id_bound stype_id_bound])

lemma id_binop_inj:
  "id_binop (biop_code opc) a b = id_binop (biop_code opc') a' b' \<longleftrightarrow>
     opc = opc' \<and> a = a' \<and> b = b'"
  by (simp only: id_binop_plain pack_inj [OF stype_id_bound stype_id_bound]
        biop_code_inj stype_id_inj conj_assoc)

lemma id_unop_st_plain:
  "id_unop_st (unop_code opc) a = unop_code opc * 256 + stype_id a"
  unfolding id_unop_st_def
  by (rule shift_sum2 [OF unop_code_bound stype_id_bound])

lemma id_unop_st_inj:
  "id_unop_st (unop_code opc) a = id_unop_st (unop_code opc') a' \<longleftrightarrow> opc = opc' \<and> a = a'"
  by (simp only: id_unop_st_plain pack_inj [OF stype_id_bound stype_id_bound]
        unop_code_inj stype_id_inj)

lemma fold_rules_lookup:
  assumes "\<And>x m. (body x m) k = (if hit x then Some v else m k)"
  shows "(fold body xs m) k = (if \<exists>x\<in>set xs. hit x then Some v else m k)"
  using assms by (induction xs arbitrary: m) auto


lemma nest_lookup:
  assumes "\<And>st1 st2 m. (body st1 st2 m) k = (if a = st1 \<and> b = st2 then r else m k)"
  shows "(fold (\<lambda>st1. fold (\<lambda>st2. body st1 st2) ys) xs m) k =
           (if a \<in> set xs \<and> b \<in> set ys then r else m k)"
proof -
  have inner: "(fold (\<lambda>st2. body st1 st2) ys m') k = (if a = st1 \<and> b \<in> set ys then r else m' k)"
    for st1 m'
    using assms by (induction ys arbitrary: m') auto
  show ?thesis
    using inner by (induction xs arbitrary: m) auto
qed

lemma nest_miss:
  assumes "\<And>st1 st2 m. (body st1 st2 m) k = m k"
  shows "(fold (\<lambda>st1. fold (\<lambda>st2. body st1 st2) ys) xs m) k = m k"
proof -
  have inner: "(fold (\<lambda>st2. body st1 st2) ys m') k = m' k" for st1 m'
    using assms by (induction ys arbitrary: m') auto
  show ?thesis
    using inner by (induction xs arbitrary: m) auto
qed

lemma binop_rules_arith:
  assumes "opc \<in> {PLUS, MINUS, MULTIPLY, POWER}"
  shows "binop_rules (id_binop (biop_code opc) a b) =
           (if a \<in> set numeric_stypes \<and> b \<in> set numeric_stypes then Some (max a b) else None)"
proof -
  let ?k = "id_binop (biop_code opc) a b"
  have n: "(binop_numeric_body st1 st2 m) ?k = (if a = st1 \<and> b = st2 then Some (max a b) else m ?k)"
    for st1 st2 m
    using assms by (cases opc; simp add: binop_numeric_body_def id_binop_inj Let_def del: biop_code.simps)
  have i: "(binop_integer_body st1 st2 m) ?k = m ?k" for st1 st2 m
    using assms by (cases opc; simp add: binop_integer_body_def id_binop_inj Let_def del: biop_code.simps)
  have s: "(binop_string_body st1 st2 m) ?k = m ?k" for st1 st2 m
    using assms by (cases opc; simp add: binop_string_body_def id_binop_inj del: biop_code.simps)
  have l: "?k \<noteq> id_binop (biop_code LOGICAL_AND) BOOL BOOL" "?k \<noteq> id_binop (biop_code LOGICAL_OR) BOOL BOOL"
    using assms by (auto simp: id_binop_inj simp del: biop_code.simps)
  show ?thesis
    unfolding binop_rules_def init_binops_def Let_def
    by (simp only: fun_upd_other [OF l(1)] fun_upd_other [OF l(2)]
          nest_miss [of binop_string_body, OF s] nest_miss [of binop_integer_body, OF i]
          nest_lookup [of binop_numeric_body, OF n] empty_iff)
qed


lemma binop_rules_divide:
  "binop_rules (id_binop (biop_code DIVIDE) a b) =
     (if a \<in> set numeric_stypes \<and> b \<in> set numeric_stypes then Some FLOAT64 else None)"
proof -
  let ?k = "id_binop (biop_code DIVIDE) a b"
  have n: "(binop_numeric_body st1 st2 m) ?k = (if a = st1 \<and> b = st2 then Some FLOAT64 else m ?k)"
    for st1 st2 m
    by (simp add: binop_numeric_body_def id_binop_inj Let_def del: biop_code.simps)
  have i: "(binop_integer_body st1 st2 m) ?k = m ?k" for st1 st2 m
    by (simp add: binop_integer_body_def id_binop_inj Let_def del: biop_code.simps)
  have s: "(binop_string_body st1 st2 m) ?k = m ?k" for st1 st2 m
    by (simp add: binop_string_body_def id_binop_inj del: biop_code.simps)
  have l: "?k \<noteq> id_binop (biop_code LOGICAL_AND) BOOL BOOL" "?k \<noteq> id_binop (biop_code LOGICAL_OR) BOOL BOOL"
    by (simp_all add: id_binop_inj del: biop_code.simps)
  show ?thesis
    unfolding binop_rules_def init_binops_def Let_def
    by (simp only: fun_upd_other [OF l(1)] fun_upd_other [OF l(2)]
          nest_miss [of binop_string_body, OF s] nest_miss [of binop_integer_body, OF i]
          nest_lookup [of binop_numeric_body, OF n] empty_iff)
qed

lemma binop_rules_integer:
  assumes "opc \<in> {INT_DIVIDE, MODULO, LEFT_SHIFT, RIGHT_SHIFT}"
  shows "binop_rules (id_binop (biop_code opc) a b) =
           (if a \<in> set integer_stypes \<and> b \<in> set integer_stypes then Some (max a b) else None)"
proof -
  let ?k = "id_binop (biop_code opc) a b"
  have n: "(binop_numeric_body st1 st2 m) ?k = m ?k" for st1 st2 m
    using assms by (cases opc; simp add: binop_numeric_body_def id_binop_inj Let_def del: biop_code.simps)
  have i: "(binop_integer_body st1 st2 m) ?k = (if a = st1 \<and> b = st2 then Some (max a b) else m ?k)"
    for st1 st2 m
    using assms by (cases opc; simp add: binop_integer_body_def id_binop_inj Let_def del: biop_code.simps)
  have s: "(binop_string_body st1 st2 m) ?k = m ?k" for st1 st2 m
    using assms by (cases opc; simp add: binop_string_body_def id_binop_inj del: biop_code.simps)
  have l: "?k \<noteq> id_binop (biop_code LOGICAL_AND) BOOL BOOL" "?k \<noteq> id_binop (biop_code LOGICAL_OR) BOOL BOOL"
    using assms by (auto simp: id_binop_inj simp del: biop_code.simps)
  show ?thesis
    unfolding binop_rules_def init_binops_def Let_def
    by (simp only: fun_upd_other [OF l(1)] fun_upd_other [OF l(2)]
          nest_miss [of binop_string_body, OF s] nest_lookup [of binop_integer_body, OF i]
          nest_miss [of binop_numeric_body, OF n] empty_iff)
qed

lemma binop_rules_equality:
  assumes "opc \<in> {REL_EQ, REL_NE}"
  shows "binop_rules (id_binop (biop_code opc) a b) =
           (if a \<in> set string_types \<and> b \<in> set string_types then Some BOOL
            else if a \<in> set numeric_stypes \<and> b \<in> set numeric_stypes then Some BOOL else None)"
proof -
  let ?k = "id_binop (biop_code opc) a b"
  have n: "(binop_numeric_body st1 st2 m) ?k = (if a = st1 \<and> b = st2 then Some BOOL else m ?k)"
    for st1 st2 m
    using assms by (cases opc; simp add: binop_numeric_body_def id_binop_inj Let_def del: biop_code.simps)
  have i: "(binop_integer_body st1 st2 m) ?k = m ?k" for st1 st2 m
    using assms by (cases opc; simp add: binop_integer_body_def id_binop_inj Let_def del: biop_code.simps)
  have s: "(binop_string_body st1 st2 m) ?k = (if a = st1 \<and> b = st2 then Some BOOL else m ?k)"
    for st1 st2 m
    using assms by (cases opc; simp add: binop_string_body_def id_binop_inj del: biop_code.simps)
  have l: "?k \<noteq> id_binop (biop_code LOGICAL_AND) BOOL BOOL" "?k \<noteq> id_binop (biop_code LOGICAL_OR) BOOL BOOL"
    using assms by (auto simp: id_binop_inj simp del: biop_code.simps)
  show ?thesis
    unfolding binop_rules_def init_binops_def Let_def
    by (simp only: fun_upd_other [OF l(1)] fun_upd_other [OF l(2)]
          nest_lookup [of binop_string_body, OF s] nest_miss [of binop_integer_body, OF i]
          nest_lookup [of binop_numeric_body, OF n] empty_iff)
qed

lemma binop_rules_ordering:
  assumes "opc \<in> {REL_LT, REL_GT, REL_LE, REL_GE}"
  shows "binop_rules (id_binop (biop_code opc) a b) =
           (if a \<in> set numeric_stypes \<and> b \<in> set numeric_stypes then Some BOOL else None)"
proof -
  let ?k = "id_binop (biop_code opc) a b"
  have n: "(binop_numeric_body st1 st2 m) ?k = (if a = st1 \<and> b = st2 then Some BOOL else m ?k)"
    for st1 st2 m
    using assms by (cases opc; simp add: binop_numeric_body_def id_binop_inj Let_def del: biop_code.simps)
  have i: "(binop_integer_body st1 st2 m) ?k = m ?k" for st1 st2 m
    using assms by (cases opc; simp add: binop_integer_body_def id_binop_inj Let_def del: biop_code.simps)
  have s: "(binop_string_body st1 st2 m) ?k = m ?k" for st1 st2 m
    using assms by (cases opc; simp add: binop_string_body_def id_binop_inj del: biop_code.simps)
  have l: "?k \<noteq> id_binop (biop_code LOGICAL_AND) BOOL BOOL" "?k \<noteq> id_binop (biop_code LOGICAL_OR) BOOL BOOL"
    using assms by (auto simp: id_binop_inj simp del: biop_code.simps)
  show ?thesis
    unfolding binop_rules_def init_binops_def Let_def
    by (simp only: fun_upd_other [OF l(1)] fun_upd_other [OF l(2)]
          nest_miss [of binop_string_body, OF s] nest_miss [of binop_integer_body, OF i]
          nest_lookup [of binop_numeric_body, OF n] empty_iff)
qed

lemma binop_rules_logical:
  assumes "opc \<in> {LOGICAL_AND, LOGICAL_OR}"
  shows "binop_rules (id_binop (biop_code opc) a b) =
           (if a = BOOL \<and> b = BOOL then Some BOOL else None)"
proof -
  let ?k = "id_binop (biop_code opc) a b"
  have n: "(binop_numeric_body st1 st2 m) ?k = m ?k" for st1 st2 m
    using assms by (cases opc; simp add: binop_numeric_body_def id_binop_inj Let_def del: biop_code.simps)
  have i: "(binop_integer_body st1 st2 m) ?k = m ?k" for st1 st2 m
    using assms by (cases opc; simp add: binop_integer_body_def id_binop_inj Let_def del: biop_code.simps)
  have s: "(binop_string_body st1 st2 m) ?k = m ?k" for st1 st2 m
    using assms by (cases opc; simp add: binop_string_body_def id_binop_inj del: biop_code.simps)
  show ?thesis
    unfolding binop_rules_def init_binops_def Let_def
    using assms
    by (auto simp add: fun_upd_apply id_binop_inj
          nest_miss [of binop_string_body, OF s] nest_miss [of binop_integer_body, OF i]
          nest_miss [of binop_numeric_body, OF n] simp del: biop_code.simps)
qed

lemma unop_rules_sign:
  assumes "opc \<in> {UMINUS, UPLUS, ABS}"
  shows "unop_rules (id_unop_st (unop_code opc) a) =
           (if a = BOOL then Some INT8 else if a \<in> set numeric_stypes then Some a else None)"
proof -
  let ?k = "id_unop_st (unop_code opc) a"
  have isna: "(m(id_unop_st (unop_code ISNA) st \<mapsto> BOOL)) ?k = m ?k" for st m
    using assms by (auto simp: id_unop_st_inj simp del: unop_code.simps)
  have inv: "(m(id_unop_st (unop_code INVERT) st \<mapsto> st)) ?k = m ?k" for st m
    using assms by (auto simp: id_unop_st_inj simp del: unop_code.simps)
  have num: "(unop_numeric_body st m) ?k = (if a = st then Some a else m ?k)" for st m
    using assms by (auto simp: unop_numeric_body_def id_unop_st_inj simp del: unop_code.simps)
  have f1: "fold (\<lambda>st m. m(id_unop_st (unop_code ISNA) st \<mapsto> BOOL)) xs m ?k = m ?k" for xs m
    using fold_rules_lookup [of "\<lambda>st m. m(id_unop_st (unop_code ISNA) st \<mapsto> BOOL)" ?k "\<lambda>_. False" BOOL xs m] isna
    by simp
  have f2: "fold (\<lambda>st m. m(id_unop_st (unop_code INVERT) st \<mapsto> st)) xs m ?k = m ?k" for xs m
    using fold_rules_lookup [of "\<lambda>st m. m(id_unop_st (unop_code INVERT) st \<mapsto> st)" ?k "\<lambda>_. False" BOOL xs m] inv
    by simp
  have f3: "fold unop_numeric_body xs m ?k = (if a \<in> set xs then Some a else m ?k)" for xs m
    using fold_rules_lookup [of unop_numeric_body ?k "\<lambda>st. a = st" a xs m] num
    by simp
  show ?thesis
    unfolding unop_rules_def init_unops_def Let_def
    using assms
    by (auto simp add: fun_upd_apply id_unop_st_inj f1 f2 f3 simp del: unop_code.simps)
qed

section \<open>Resolving operator nodes\<close>

lemma length_binop_names: "length binop_names = 18"
  by (simp add: binop_names_def)

lemma length_unop_names: "length unop_names = 10"
  by (simp add: unop_names_def id_unop_def)

lemma resolve_binaryop:
  assumes "resolve wfm l = (l', Inr s1)" and "resolve wfm r = (r', Inr s2)"
  shows "resolve wfm (Expr_binaryop opc l r) =
           (Expr_binaryop opc l' r',
            case binop_rules (id_binop opc s1 s2) of
              None \<Rightarrow>
                if opc < length binop_names
                then Inl (TypeError (BinaryOperatorMismatch (binop_names ! opc) s1 s2))
                else Inl Undefined
            | Some st \<Rightarrow> Inr st)"
  using assms by (simp split: option.split)

lemma resolve_unaryop:
  assumes "resolve wfm a = (a', Inr s)"
  shows "resolve wfm (Expr_unaryop opc a) =
           (Expr_unaryop opc a',
            case unop_rules (id_unop_st opc s) of
              None \<Rightarrow>
                if opc < length unop_names
                then Inl (TypeError (UnaryOperatorMismatch (unop_names ! opc) s))
                else Inl Undefined
            | Some st \<Rightarrow> Inr st)"
  using assms by (simp split: option.split)

lemma biop_code_in_names: "biop_code opc < length binop_names"
  using biop_code_bound [of opc] by (simp add: length_binop_names)

lemma resolve_binaryop_typed:
  assumes "resolve wfm l = (l', Inr s1)" and "resolve wfm r = (r', Inr s2)"
    and "binop_rules (id_binop (biop_code opc) s1 s2) = Some st"
  shows "resolve wfm (Expr_binaryop (biop_code opc) l r) =
           (Expr_binaryop (biop_code opc) l' r', Inr st)"
  by (simp only: resolve_binaryop [OF assms(1,2)] assms(3) option.case)

lemma resolve_binaryop_untyped:
  assumes "resolve wfm l = (l', Inr s1)" and "resolve wfm r = (r', Inr s2)"
    and "binop_rules (id_binop (biop_code opc) s1 s2) = None"
  shows "resolve wfm (Expr_binaryop (biop_code opc) l r) =
           (Expr_binaryop (biop_code opc) l' r',
            Inl (TypeError (BinaryOperatorMismatch (binop_names ! biop_code opc) s1 s2)))"
  by (simp only: resolve_binaryop [OF assms(1,2)] assms(3) option.case biop_code_in_names if_True)

section \<open>The counting loop\<close>

lemma count_loop_length: "length (count_loop offs ng i d) = length d"
proof (induction offs ng i d rule: count_loop.induct)
  case (1 offs ng i d_res)
  show ?case
  proof (cases "i < ng")
    case True
    with "1" show ?thesis by (subst count_loop.simps) simp
  next
    case False
    then show ?thesis by (subst count_loop.simps) simp
  qed
qed

lemma count_loop_nth:
  "j < length d \<Longrightarrow>
   count_loop offs ng i d ! j =
     (if i \<le> j \<and> j < ng then sint (offs ! (j + 1) - offs ! j) else d ! j)"
proof (induction offs ng i d rule: count_loop.induct)
  case (1 offs ng i d_res)
  show ?case
  proof (cases "i < ng")
    case True
    have "count_loop offs ng i d_res ! j =
            count_loop offs ng (i + 1) (d_res[i := sint (offs ! (i + 1) - offs ! i)]) ! j"
      using True by (subst count_loop.simps) simp
    also have "\<dots> = (if i + 1 \<le> j \<and> j < ng then sint (offs ! (j + 1) - offs ! j)
                       else d_res[i := sint (offs ! (i + 1) - offs ! i)] ! j)"
      using "1.IH" [OF True] "1.prems" by simp
    also have "\<dots> = (if i \<le> j \<and> j < ng then sint (offs ! (j + 1) - offs ! j) else d_res ! j)"
      using True "1.prems" by (cases "i = j") auto
    finally show ?thesis .
  next
    case False
    then show ?thesis by (subst count_loop.simps) simp
  qed
qed

lemma count_loop_all:
  "count_loop offs ng 0 (replicate ng 0) = map (\<lambda>i. sint (offs ! (i + 1) - offs ! i)) [0..<ng]"
  by (rule nth_equalityI) (simp_all add: count_loop_length count_loop_nth)

lemma sint_diff_int32:
  fixes a b :: "32 word"
  assumes "0 \<le> sint a" and "sint a \<le> sint b"
  shows "sint (b - a) = sint b - sint a"
proof -
  have u: "sint b < 2 ^ 31"
    using sint_lt [of b] by simp
  have "- (2 ^ 31) \<le> sint b - sint a" and "sint b - sint a < 2 ^ 31"
    using assms u by linarith+
  then have "signed_take_bit 31 (sint b - sint a) = sint b - sint a"
    by (rule signed_take_bit_int_eq_self)
  then show ?thesis
    by (simp add: sint_word_ariths)
qed

lemma offsets_differences:
  fixes offs :: "32 word list"
  assumes s: "sorted (map sint offs)" and p: "\<forall>x\<in>set offs. 0 \<le> sint x"
  shows "map (\<lambda>i. sint (offs ! (i + 1) - offs ! i)) [0..<length offs - 1] =
         map (\<lambda>i. sint (offs ! (i + 1)) - sint (offs ! i)) [0..<length offs - 1]"
proof (rule map_cong [OF refl])
  fix i
  assume "i \<in> set [0..<length offs - 1]"
  then have i: "i + 1 < length offs"
    by auto
  then have "map sint offs ! i \<le> map sint offs ! (i + 1)"
    using s by (simp add: sorted_iff_nth_mono)
  then have m: "sint (offs ! i) \<le> sint (offs ! (i + 1))"
    using i by simp
  have "0 \<le> sint (offs ! i)"
    using p i by simp
  then show "sint (offs ! (i + 1) - offs ! i) = sint (offs ! (i + 1)) - sint (offs ! i)"
    using m by (rule sint_diff_int32)
qed

lemma cast_int64_small: "n < 2 ^ 63 \<Longrightarrow> cast_int64 n = int n"
  by (simp add: cast_int64_def)

section \<open>Column nodes\<close>

lemma mode_of_max:
  "mode_of_code (max (mode_code a) (mode_code b)) = (if a = GtoALL \<or> b = GtoALL then GtoALL else GtoONE)"
  by (cases a; cases b; simp add: mode_of_code_def)

lemma get_col_index_node:
  assumes "get_col_index wfm (Expr_column fid cid sel) = (e', Inr i)"
  shows "e' = Expr_column fid i sel"
  using assms
  by (auto simp: xassert_col_id_def Let_def split: if_splits selector.splits sum.splits)

lemma cast_size_t_small: "0 \<le> i \<Longrightarrow> i < 2 ^ 64 \<Longrightarrow> cast_size_t i = nat i"
  by (simp add: cast_size_t_def)

lemma get_col_index_no_frame:
  assumes "nframes wfm \<le> fid"
  shows "get_col_index wfm (expr_column fid sel) = (expr_column fid sel, Inl (ValueError NonExistingFrame))"
  using assms by (simp add: expr_column_def)

lemma get_col_index_int:
  assumes f: "fid < nframes wfm" and n: "ncols (get_datatable wfm fid) < 2 ^ 63"
  shows "get_col_index wfm (expr_column fid (SelInt v)) =
           (if - int (ncols (get_datatable wfm fid)) \<le> sint v \<and> sint v < int (ncols (get_datatable wfm fid))
            then (Expr_column fid
                    (nat (if sint v < 0 then sint v + int (ncols (get_datatable wfm fid)) else sint v))
                    (SelInt v),
                  Inr (nat (if sint v < 0 then sint v + int (ncols (get_datatable wfm fid)) else sint v)))
            else (expr_column fid (SelInt v),
                  Inl (ValueError (InvalidColumnIndex (sint v) (int (ncols (get_datatable wfm fid)))))))"
proof -
  let ?n = "int (ncols (get_datatable wfm fid))"
  let ?i = "sint v"
  have c: "cast_int64 (ncols (get_datatable wfm fid)) = ?n"
    using n by (rule cast_int64_small)
  have b: "?n < 2 ^ 63"
    using n by simp
  show ?thesis
  proof (cases "- ?n \<le> ?i \<and> ?i < ?n")
    case True
    let ?j = "if ?i < 0 then ?i + ?n else ?i"
    have r: "0 \<le> ?j" "?j < ?n"
      using True by auto
    have p: "(2::int) ^ 63 < 2 ^ 64"
      by simp
    have "?j < 2 ^ 64"
      using r(2) b p by (rule less_trans [OF less_trans])
    then have s: "cast_size_t ?j = nat ?j"
      using r(1) by (rule cast_size_t_small [rotated])
    have x: "nat ?j < ncols (get_datatable wfm fid)"
      using r by linarith
    have "get_col_index wfm (expr_column fid (SelInt v)) =
            xassert_col_id (get_datatable wfm fid) fid (cast_size_t ?j) (SelInt v)"
      using f True by (simp add: expr_column_def Let_def c to_int64_strict_def)
    also have "\<dots> = (Expr_column fid (nat ?j) (SelInt v), Inr (nat ?j))"
      unfolding s xassert_col_id_def using x by (simp only: if_True)
    finally show ?thesis
      using True by (simp del: get_col_index.simps)
  next
    case False
    then have "get_col_index wfm (expr_column fid (SelInt v)) =
            (expr_column fid (SelInt v), Inl (ValueError (InvalidColumnIndex ?i ?n)))"
      using f by (auto simp add: expr_column_def Let_def c to_int64_strict_def)
    then show ?thesis
      using False by (simp del: get_col_index.simps)
  qed
qed


lemma resolve_column:
  assumes "get_col_index wfm (expr_column fid sel) = (e', Inr i)"
    and "fid < nframes wfm" and "i < ncols (get_datatable wfm fid)"
  shows "resolve wfm (expr_column fid sel) = (e', Inr (stype (columns (get_datatable wfm fid) ! i)))"
  using assms unfolding expr_column_def by (simp del: get_col_index.simps)

lemma resolve_column_error:
  assumes "get_col_index wfm (expr_column fid sel) = (e', Inl err)"
  shows "resolve wfm (expr_column fid sel) = (e', Inl err)"
  using assms unfolding expr_column_def by (simp del: get_col_index.simps)

lemma get_col_index_again:
  assumes "get_col_index wfm (Expr_column fid cid sel) = (e1, Inr i)"
  shows "get_col_index wfm e1 = (e1, Inr i)"
proof -
  have e: "e1 = Expr_column fid i sel"
    using assms by (rule get_col_index_node)
  show ?thesis
  proof (cases "cid = size_t_max")
    case False
    then have "i = cid"
      using assms by simp
    then show ?thesis
      using assms e by simp
  next
    case True
    show ?thesis
    proof (cases "i = size_t_max")
      case True
      with \<open>cid = size_t_max\<close> e assms show ?thesis
        by simp
    next
      case False
      then show ?thesis
        unfolding e by simp
    qed
  qed
qed

lemma resolve_column_cases:
  assumes "resolve wfm (Expr_column fid cid sel) = (e1, Inr st)"
  obtains i where "get_col_index wfm (Expr_column fid cid sel) = (e1, Inr i)"
    and "fid < nframes wfm" and "i < ncols (get_datatable wfm fid)"
    and "st = stype (columns (get_datatable wfm fid) ! i)"
proof (cases "get_col_index wfm (Expr_column fid cid sel)")
  case (Pair e' r)
  show ?thesis
  proof (cases r)
    case (Inl err)
    with Pair assms show ?thesis
      by (simp del: get_col_index.simps)
  next
    case (Inr i)
    with Pair assms that [of i] show ?thesis
      by (simp del: get_col_index.simps split: if_splits)
  qed
qed

lemma resolve_again:
  "resolve wfm e = (e1, Inr st) \<Longrightarrow> resolve wfm e1 = (e1, Inr st)"
proof (induction e arbitrary: e1 st)
  case (Expr_column fid cid sel)
  from Expr_column obtain i where g: "get_col_index wfm (Expr_column fid cid sel) = (e1, Inr i)"
    and f: "fid < nframes wfm" and n: "i < ncols (get_datatable wfm fid)"
    and s: "st = stype (columns (get_datatable wfm fid) ! i)"
    by (rule resolve_column_cases)
  have e: "e1 = Expr_column fid i sel"
    using g by (rule get_col_index_node)
  have "get_col_index wfm (Expr_column fid i sel) = (Expr_column fid i sel, Inr i)"
    using get_col_index_again [OF g] unfolding e .
  then show ?case
    unfolding e using f n s by (simp del: get_col_index.simps)
next
  case (Expr_binaryop opc l r)
  obtain l' rl where l: "resolve wfm l = (l', rl)"
    by (cases "resolve wfm l")
  obtain r' rr where r: "resolve wfm r = (r', rr)"
    by (cases "resolve wfm r")
  from Expr_binaryop.prems l r obtain s1 s2 where rl: "rl = Inr s1" and rr: "rr = Inr s2"
    by (cases rl; cases rr) (simp_all split: option.splits if_splits)
  have e: "e1 = Expr_binaryop opc l' r'" and t: "binop_rules (id_binop opc s1 s2) = Some st"
    using Expr_binaryop.prems l r rl rr by (simp_all split: option.splits if_splits)
  have "resolve wfm l' = (l', Inr s1)" "resolve wfm r' = (r', Inr s2)"
    using Expr_binaryop.IH l r rl rr by simp_all
  then show ?case
    unfolding e using t by simp
next
  case (Expr_literal c)
  then show ?case by auto
next
  case (Expr_unaryop opc a)
  obtain a' ra where a: "resolve wfm a = (a', ra)"
    by (cases "resolve wfm a")
  from Expr_unaryop.prems a obtain s where ra: "ra = Inr s"
    by (cases ra) (simp_all split: option.splits if_splits)
  have e: "e1 = Expr_unaryop opc a'" and t: "unop_rules (id_unop_st opc s) = Some st"
    using Expr_unaryop.prems a ra by (simp_all split: option.splits if_splits)
  have "resolve wfm a' = (a', Inr s)"
    using Expr_unaryop.IH a ra by simp
  then show ?case
    unfolding e using t by simp
next
  case (Expr_cast a t)
  obtain a' ra where a: "resolve wfm a = (a', ra)"
    by (cases "resolve wfm a")
  from Expr_cast.prems a obtain s where ra: "ra = Inr s"
    by (cases ra) simp_all
  have e: "e1 = Expr_cast a' t" and t: "st = t"
    using Expr_cast.prems a ra by auto
  have "resolve wfm a' = (a', Inr s)"
    using Expr_cast.IH a ra by simp
  then show ?case
    unfolding e t by simp
next
  case (Expr_reduce_nullary opc)
  then show ?case by auto
qed

section \<open>Factory checks\<close>

lemma check_args_count_fails:
  "length va \<noteq> n \<Longrightarrow> and_then (check_args_count va n) f = Inl (TypeError (WrongArgsCount n (length va)))"
  by (simp add: check_args_count_def and_then_def)

lemma to_base_expr_fails:
  "(\<forall>e. x \<noteq> PyBaseExpr e) \<Longrightarrow> to_base_expr x = Inl (TypeError NotBaseExpr)"
  by (cases x) simp_all

section \<open>Claims\<close>

text \<open>
  Claim C3. For every pair of numeric operand storage types, \<open>INT8\<close> with \<open>INT8\<close>
  included, the rule table maps DIVIDE to \<open>FLOAT64\<close>, and resolving a binary node with
  operator DIVIDE whose operands resolve to these types returns \<open>FLOAT64\<close>.
\<close>

theorem divide_resolves_to_float64:
  assumes "s1 \<in> set numeric_stypes" and "s2 \<in> set numeric_stypes"
    and "resolve wfm l = (l', Inr s1)" and "resolve wfm r = (r', Inr s2)"
  shows "binop_rules (id_binop (biop_code DIVIDE) s1 s2) = Some FLOAT64 \<and>
         resolve wfm (Expr_binaryop (biop_code DIVIDE) l r) =
           (Expr_binaryop (biop_code DIVIDE) l' r', Inr FLOAT64)"
proof -
  have t: "binop_rules (id_binop (biop_code DIVIDE) s1 s2) = Some FLOAT64"
    using assms(1,2) by (simp only: binop_rules_divide if_True simp_thms)
  show ?thesis
    by (simp only: t resolve_binaryop [OF assms(3,4)] option.case simp_thms)
qed

text \<open>Claim C3 at \<open>INT8\<close> divided by \<open>INT8\<close>.\<close>

theorem divide_resolves_to_float64_witness:
  "resolve \<lparr>frames = [], nrows = 0, groupby = None\<rparr>
     (Expr_binaryop (biop_code DIVIDE)
        (Expr_literal \<lparr>stype = INT8, data = [6], rowindex = None\<rparr>)
        (Expr_literal \<lparr>stype = INT8, data = [3], rowindex = None\<rparr>)) =
   (Expr_binaryop (biop_code DIVIDE)
        (Expr_literal \<lparr>stype = INT8, data = [6], rowindex = None\<rparr>)
        (Expr_literal \<lparr>stype = INT8, data = [3], rowindex = None\<rparr>), Inr FLOAT64)"
proof -
  have n: "INT8 \<in> set numeric_stypes"
    by (simp add: numeric_stypes_def)
  have l: "resolve \<lparr>frames = [], nrows = 0, groupby = None\<rparr>
             (Expr_literal \<lparr>stype = INT8, data = [6], rowindex = None\<rparr>) =
           (Expr_literal \<lparr>stype = INT8, data = [6], rowindex = None\<rparr>, Inr INT8)"
    by simp
  have r: "resolve \<lparr>frames = [], nrows = 0, groupby = None\<rparr>
             (Expr_literal \<lparr>stype = INT8, data = [3], rowindex = None\<rparr>) =
           (Expr_literal \<lparr>stype = INT8, data = [3], rowindex = None\<rparr>, Inr INT8)"
    by simp
  from divide_resolves_to_float64 [OF n n l r] show ?thesis
    by (rule conjunct2)
qed

text \<open>
  Claim C1, as amended. Let the operands of a binary node resolve to the storage types
  \<open>s1\<close> and \<open>s2\<close>. For PLUS, MINUS, MULTIPLY and POWER the rule table holds
  \<open>max s1 s2\<close> when both types are numeric, and for INT_DIVIDE, MODULO, LEFT_SHIFT and
  RIGHT_SHIFT it holds \<open>max s1 s2\<close> when both types are integer types (\<open>INT8\<close> to
  \<open>INT64\<close>); \<open>resolve\<close> returns that type. For every other pair of operand types
  the table has no entry for these operators and \<open>resolve\<close> raises a TypeError that
  names the operator's symbol and the two types.
\<close>

theorem binop_promotion_rules:
  assumes "resolve wfm l = (l', Inr s1)" and "resolve wfm r = (r', Inr s2)"
  shows "(opc \<in> {PLUS, MINUS, MULTIPLY, POWER} \<longrightarrow>
           (if s1 \<in> set numeric_stypes \<and> s2 \<in> set numeric_stypes
            then binop_rules (id_binop (biop_code opc) s1 s2) = Some (max s1 s2) \<and>
                 resolve wfm (Expr_binaryop (biop_code opc) l r) =
                   (Expr_binaryop (biop_code opc) l' r', Inr (max s1 s2))
            else binop_rules (id_binop (biop_code opc) s1 s2) = None \<and>
                 resolve wfm (Expr_binaryop (biop_code opc) l r) =
                   (Expr_binaryop (biop_code opc) l' r',
                    Inl (TypeError (BinaryOperatorMismatch (binop_names ! biop_code opc) s1 s2))))) \<and>
         (opc \<in> {INT_DIVIDE, MODULO, LEFT_SHIFT, RIGHT_SHIFT} \<longrightarrow>
           (if s1 \<in> set integer_stypes \<and> s2 \<in> set integer_stypes
            then binop_rules (id_binop (biop_code opc) s1 s2) = Some (max s1 s2) \<and>
                 resolve wfm (Expr_binaryop (biop_code opc) l r) =
                   (Expr_binaryop (biop_code opc) l' r', Inr (max s1 s2))
            else binop_rules (id_binop (biop_code opc) s1 s2) = None \<and>
                 resolve wfm (Expr_binaryop (biop_code opc) l r) =
                   (Expr_binaryop (biop_code opc) l' r',
                    Inl (TypeError (BinaryOperatorMismatch (binop_names ! biop_code opc) s1 s2)))))"
proof (intro conjI impI)
  assume a: "opc \<in> {PLUS, MINUS, MULTIPLY, POWER}"
  show "if s1 \<in> set numeric_stypes \<and> s2 \<in> set numeric_stypes
        then binop_rules (id_binop (biop_code opc) s1 s2) = Some (max s1 s2) \<and>
             resolve wfm (Expr_binaryop (biop_code opc) l r) =
               (Expr_binaryop (biop_code opc) l' r', Inr (max s1 s2))
        else binop_rules (id_binop (biop_code opc) s1 s2) = None \<and>
             resolve wfm (Expr_binaryop (biop_code opc) l r) =
               (Expr_binaryop (biop_code opc) l' r',
                Inl (TypeError (BinaryOperatorMismatch (binop_names ! biop_code opc) s1 s2)))"
  proof (cases "s1 \<in> set numeric_stypes \<and> s2 \<in> set numeric_stypes")
    case True
    then have t: "binop_rules (id_binop (biop_code opc) s1 s2) = Some (max s1 s2)"
      by (simp add: binop_rules_arith [OF a])
    show ?thesis
      using True t resolve_binaryop_typed [OF assms t] by simp
  next
    case False
    then have t: "binop_rules (id_binop (biop_code opc) s1 s2) = None"
      by (simp add: binop_rules_arith [OF a])
    show ?thesis
      using False t resolve_binaryop_untyped [OF assms t] by simp
  qed
next
  assume a: "opc \<in> {INT_DIVIDE, MODULO, LEFT_SHIFT, RIGHT_SHIFT}"
  show "if s1 \<in> set integer_stypes \<and> s2 \<in> set integer_stypes
        then binop_rules (id_binop (biop_code opc) s1 s2) = Some (max s1 s2) \<and>
             resolve wfm (Expr_binaryop (biop_code opc) l r) =
               (Expr_binaryop (biop_code opc) l' r', Inr (max s1 s2))
        else binop_rules (id_binop (biop_code opc) s1 s2) = None \<and>
             resolve wfm (Expr_binaryop (biop_code opc) l r) =
               (Expr_binaryop (biop_code opc) l' r',
                Inl (TypeError (BinaryOperatorMismatch (binop_names ! biop_code opc) s1 s2)))"
  proof (cases "s1 \<in> set integer_stypes \<and> s2 \<in> set integer_stypes")
    case True
    then have t: "binop_rules (id_binop (biop_code opc) s1 s2) = Some (max s1 s2)"
      by (simp add: binop_rules_integer [OF a])
    show ?thesis
      using True t resolve_binaryop_typed [OF assms t] by simp
  next
    case False
    then have t: "binop_rules (id_binop (biop_code opc) s1 s2) = None"
      by (simp add: binop_rules_integer [OF a])
    show ?thesis
      using False t resolve_binaryop_untyped [OF assms t] by simp
  qed
qed


text \<open>
  The amended claim C1 at PLUS and at MODULO on \<open>INT16\<close> and \<open>FLOAT32\<close>, at
  RIGHT_SHIFT on \<open>INT16\<close> and \<open>INT64\<close>, and at MULTIPLY on \<open>INT16\<close> and \<open>STR32\<close>.
\<close>

theorem binop_promotion_rules_witness:
  "resolve \<lparr>frames = [], nrows = 0, groupby = None\<rparr>
     (Expr_binaryop (biop_code PLUS)
        (Expr_literal \<lparr>stype = INT16, data = [6], rowindex = None\<rparr>)
        (Expr_literal \<lparr>stype = FLOAT32, data = [3], rowindex = None\<rparr>)) =
   (Expr_binaryop (biop_code PLUS)
        (Expr_literal \<lparr>stype = INT16, data = [6], rowindex = None\<rparr>)
        (Expr_literal \<lparr>stype = FLOAT32, data = [3], rowindex = None\<rparr>), Inr FLOAT32) \<and>
   resolve \<lparr>frames = [], nrows = 0, groupby = None\<rparr>
     (Expr_binaryop (biop_code MODULO)
        (Expr_literal \<lparr>stype = INT16, data = [6], rowindex = None\<rparr>)
        (Expr_literal \<lparr>stype = FLOAT32, data = [3], rowindex = None\<rparr>)) =
   (Expr_binaryop (biop_code MODULO)
        (Expr_literal \<lparr>stype = INT16, data = [6], rowindex = None\<rparr>)
        (Expr_literal \<lparr>stype = FLOAT32, data = [3], rowindex = None\<rparr>),
    Inl (TypeError (BinaryOperatorMismatch ''%'' INT16 FLOAT32))) \<and>
   resolve \<lparr>frames = [], nrows = 0, groupby = None\<rparr>
     (Expr_binaryop (biop_code RIGHT_SHIFT)
        (Expr_literal \<lparr>stype = INT16, data = [6], rowindex = None\<rparr>)
        (Expr_literal \<lparr>stype = INT64, data = [1], rowindex = None\<rparr>)) =
   (Expr_binaryop (biop_code RIGHT_SHIFT)
        (Expr_literal \<lparr>stype = INT16, data = [6], rowindex = None\<rparr>)
        (Expr_literal \<lparr>stype = INT64, data = [1], rowindex = None\<rparr>), Inr INT64) \<and>
   resolve \<lparr>frames = [], nrows = 0, groupby = None\<rparr>
     (Expr_binaryop (biop_code MULTIPLY)
        (Expr_literal \<lparr>stype = INT16, data = [6], rowindex = None\<rparr>)
        (Expr_literal \<lparr>stype = STR32, data = [0, 1], rowindex = None\<rparr>)) =
   (Expr_binaryop (biop_code MULTIPLY)
        (Expr_literal \<lparr>stype = INT16, data = [6], rowindex = None\<rparr>)
        (Expr_literal \<lparr>stype = STR32, data = [0, 1], rowindex = None\<rparr>),
    Inl (TypeError (BinaryOperatorMismatch ''*'' INT16 STR32)))"
proof -
  let ?w = "\<lparr>frames = [], nrows = 0, groupby = None\<rparr>"
  let ?l = "Expr_literal \<lparr>stype = INT16, data = [6], rowindex = None\<rparr>"
  let ?r = "Expr_literal \<lparr>stype = FLOAT32, data = [3], rowindex = None\<rparr>"
  let ?i = "Expr_literal \<lparr>stype = INT64, data = [1], rowindex = None\<rparr>"
  let ?s = "Expr_literal \<lparr>stype = STR32, data = [0, 1], rowindex = None\<rparr>"
  have l: "resolve ?w ?l = (?l, Inr INT16)" and r: "resolve ?w ?r = (?r, Inr FLOAT32)"
    and i: "resolve ?w ?i = (?i, Inr INT64)" and s: "resolve ?w ?s = (?s, Inr STR32)"
    by simp_all
  have m: "max INT16 FLOAT32 = FLOAT32" "max INT16 INT64 = INT64"
    by (simp_all add: max_def less_eq_SType_def)
  have n: "binop_names ! biop_code MODULO = ''%''" "binop_names ! biop_code MULTIPLY = ''*''"
    by (simp_all add: binop_names_def id_biop_def)
  have "resolve ?w (Expr_binaryop (biop_code PLUS) ?l ?r) =
          (Expr_binaryop (biop_code PLUS) ?l ?r, Inr FLOAT32)"
    using binop_promotion_rules [OF l r, of PLUS] m
    by (simp add: numeric_stypes_def del: resolve.simps biop_code.simps)
  moreover have "resolve ?w (Expr_binaryop (biop_code MODULO) ?l ?r) =
          (Expr_binaryop (biop_code MODULO) ?l ?r,
           Inl (TypeError (BinaryOperatorMismatch ''%'' INT16 FLOAT32)))"
    using binop_promotion_rules [OF l r, of MODULO] n
    by (simp add: integer_stypes_def del: resolve.simps biop_code.simps)
  moreover have "resolve ?w (Expr_binaryop (biop_code RIGHT_SHIFT) ?l ?i) =
          (Expr_binaryop (biop_code RIGHT_SHIFT) ?l ?i, Inr INT64)"
    using binop_promotion_rules [OF l i, of RIGHT_SHIFT] m
    by (simp add: integer_stypes_def del: resolve.simps biop_code.simps)
  moreover have "resolve ?w (Expr_binaryop (biop_code MULTIPLY) ?l ?s) =
          (Expr_binaryop (biop_code MULTIPLY) ?l ?s,
           Inl (TypeError (BinaryOperatorMismatch ''*'' INT16 STR32)))"
    using binop_promotion_rules [OF l s, of MULTIPLY] n
    by (simp add: numeric_stypes_def del: resolve.simps biop_code.simps)
  ultimately show ?thesis
    by (intro conjI)
qed

text \<open>
  Claim C1 as first stated puts INT_DIVIDE and MODULO with the operators defined on every
  numeric pair. \<open>FLOAT64\<close> is numeric, and INT_DIVIDE has no entry for two of them.
\<close>

theorem int_divide_of_floats_counterexample:
  "FLOAT64 \<in> set numeric_stypes \<and>
   binop_rules (id_binop (biop_code INT_DIVIDE) FLOAT64 FLOAT64) = None \<and>
   resolve \<lparr>frames = [], nrows = 0, groupby = None\<rparr>
     (Expr_binaryop (biop_code INT_DIVIDE)
        (Expr_literal \<lparr>stype = FLOAT64, data = [7], rowindex = None\<rparr>)
        (Expr_literal \<lparr>stype = FLOAT64, data = [2], rowindex = None\<rparr>)) =
   (Expr_binaryop (biop_code INT_DIVIDE)
        (Expr_literal \<lparr>stype = FLOAT64, data = [7], rowindex = None\<rparr>)
        (Expr_literal \<lparr>stype = FLOAT64, data = [2], rowindex = None\<rparr>),
    Inl (TypeError (BinaryOperatorMismatch ''//'' FLOAT64 FLOAT64)))"
proof -
  let ?w = "\<lparr>frames = [], nrows = 0, groupby = None\<rparr>"
  let ?l = "Expr_literal \<lparr>stype = FLOAT64, data = [7], rowindex = None\<rparr>"
  let ?r = "Expr_literal \<lparr>stype = FLOAT64, data = [2], rowindex = None\<rparr>"
  have l: "resolve ?w ?l = (?l, Inr FLOAT64)" and r: "resolve ?w ?r = (?r, Inr FLOAT64)"
    by simp_all
  have c: "FLOAT64 \<in> set numeric_stypes"
    by (simp add: numeric_stypes_def)
  have t: "binop_rules (id_binop (biop_code INT_DIVIDE) FLOAT64 FLOAT64) = None"
    using binop_rules_integer [of INT_DIVIDE FLOAT64 FLOAT64]
    by (simp add: integer_stypes_def del: biop_code.simps)
  have n: "binop_names ! biop_code INT_DIVIDE = ''//''"
    by (simp add: binop_names_def id_biop_def)
  have "resolve ?w (Expr_binaryop (biop_code INT_DIVIDE) ?l ?r) =
          (Expr_binaryop (biop_code INT_DIVIDE) ?l ?r,
           Inl (TypeError (BinaryOperatorMismatch ''//'' FLOAT64 FLOAT64)))"
    using resolve_binaryop_untyped [OF l r t] n by (simp del: resolve.simps biop_code.simps)
  with c t show ?thesis
    by (intro conjI)
qed

text \<open>
  Claim C6. For two string operands, whether of the same width or not, REL_EQ and REL_NE are
  in the rule table with result \<open>BOOL\<close>, and \<open>resolve\<close> returns \<open>BOOL\<close>; every other
  binary operator has no entry for them, and \<open>resolve\<close> raises a TypeError.
\<close>

theorem string_operands_rules:
  assumes "s1 \<in> set string_types" and "s2 \<in> set string_types"
    and "resolve wfm l = (l', Inr s1)" and "resolve wfm r = (r', Inr s2)"
  shows "if opc \<in> {REL_EQ, REL_NE}
         then binop_rules (id_binop (biop_code opc) s1 s2) = Some BOOL \<and>
              resolve wfm (Expr_binaryop (biop_code opc) l r) =
                (Expr_binaryop (biop_code opc) l' r', Inr BOOL)
         else binop_rules (id_binop (biop_code opc) s1 s2) = None \<and>
              resolve wfm (Expr_binaryop (biop_code opc) l r) =
                (Expr_binaryop (biop_code opc) l' r',
                 Inl (TypeError (BinaryOperatorMismatch (binop_names ! biop_code opc) s1 s2)))"
proof (cases "opc \<in> {REL_EQ, REL_NE}")
  case True
  then have t: "binop_rules (id_binop (biop_code opc) s1 s2) = Some BOOL"
    using assms(1,2) by (simp add: binop_rules_equality [OF True])
  show ?thesis
    using True t resolve_binaryop_typed [OF assms(3,4) t] by simp
next
  case False
  have s: "s1 \<notin> set numeric_stypes" "s1 \<notin> set integer_stypes" "s1 \<noteq> BOOL"
    using assms(1) by (auto simp: string_types_def numeric_stypes_def integer_stypes_def)
  consider "opc \<in> {PLUS, MINUS, MULTIPLY, POWER}" | "opc = DIVIDE"
    | "opc \<in> {INT_DIVIDE, MODULO, LEFT_SHIFT, RIGHT_SHIFT}"
    | "opc \<in> {REL_LT, REL_GT, REL_LE, REL_GE}" | "opc \<in> {LOGICAL_AND, LOGICAL_OR}"
    using False by (cases opc) simp_all
  then have t: "binop_rules (id_binop (biop_code opc) s1 s2) = None"
  proof cases
    case 1
    then show ?thesis using s by (simp add: binop_rules_arith [OF 1])
  next
    case 2
    then show ?thesis using s by (simp add: binop_rules_divide del: biop_code.simps)
  next
    case 3
    then show ?thesis using s by (simp add: binop_rules_integer [OF 3])
  next
    case 4
    then show ?thesis using s by (simp add: binop_rules_ordering [OF 4])
  next
    case 5
    then show ?thesis using s by (simp add: binop_rules_logical [OF 5])
  qed
  show ?thesis
    using False t resolve_binaryop_untyped [OF assms(3,4) t] by simp
qed


text \<open>Claim C6 at REL_EQ on \<open>STR32\<close> and \<open>STR64\<close>, and at PLUS on two \<open>STR32\<close>.\<close>

theorem string_operands_rules_witness:
  "resolve \<lparr>frames = [], nrows = 0, groupby = None\<rparr>
     (Expr_binaryop (biop_code REL_EQ)
        (Expr_literal \<lparr>stype = STR32, data = [0, 1], rowindex = None\<rparr>)
        (Expr_literal \<lparr>stype = STR64, data = [0, 2], rowindex = None\<rparr>)) =
   (Expr_binaryop (biop_code REL_EQ)
        (Expr_literal \<lparr>stype = STR32, data = [0, 1], rowindex = None\<rparr>)
        (Expr_literal \<lparr>stype = STR64, data = [0, 2], rowindex = None\<rparr>), Inr BOOL) \<and>
   resolve \<lparr>frames = [], nrows = 0, groupby = None\<rparr>
     (Expr_binaryop (biop_code PLUS)
        (Expr_literal \<lparr>stype = STR32, data = [0, 1], rowindex = None\<rparr>)
        (Expr_literal \<lparr>stype = STR32, data = [0, 1], rowindex = None\<rparr>)) =
   (Expr_binaryop (biop_code PLUS)
        (Expr_literal \<lparr>stype = STR32, data = [0, 1], rowindex = None\<rparr>)
        (Expr_literal \<lparr>stype = STR32, data = [0, 1], rowindex = None\<rparr>),
    Inl (TypeError (BinaryOperatorMismatch ''+'' STR32 STR32)))"
proof -
  let ?w = "\<lparr>frames = [], nrows = 0, groupby = None\<rparr>"
  let ?l = "Expr_literal \<lparr>stype = STR32, data = [0, 1], rowindex = None\<rparr>"
  let ?r = "Expr_literal \<lparr>stype = STR64, data = [0, 2], rowindex = None\<rparr>"
  have l: "resolve ?w ?l = (?l, Inr STR32)" and r: "resolve ?w ?r = (?r, Inr STR64)"
    by simp_all
  have s: "STR32 \<in> set string_types" "STR64 \<in> set string_types"
    by (simp_all add: string_types_def)
  have n: "binop_names ! biop_code PLUS = ''+''"
    by (simp add: binop_names_def id_biop_def)
  have "resolve ?w (Expr_binaryop (biop_code REL_EQ) ?l ?r) =
          (Expr_binaryop (biop_code REL_EQ) ?l ?r, Inr BOOL)"
    using string_operands_rules [OF s(1) s(2) l r, of REL_EQ]
    by (simp del: resolve.simps biop_code.simps)
  moreover have "resolve ?w (Expr_binaryop (biop_code PLUS) ?l ?l) =
          (Expr_binaryop (biop_code PLUS) ?l ?l,
           Inl (TypeError (BinaryOperatorMismatch ''+'' STR32 STR32)))"
    using string_operands_rules [OF s(1) s(1) l l, of PLUS] n
    by (simp del: resolve.simps biop_code.simps)
  ultimately show ?thesis
    by (rule conjI)
qed

text \<open>
  Claim C7. The unary operators MINUS, PLUS and ABS are in the rule table for every numeric
  storage type, with the operand's type as the result, except for \<open>BOOL\<close>, where the
  result is \<open>INT8\<close>; \<open>resolve\<close> of such a unary node returns that type.
\<close>

theorem sign_operators_rules:
  assumes "opc \<in> {UMINUS, UPLUS, ABS}" and "s \<in> set numeric_stypes"
    and "resolve wfm a = (a', Inr s)"
  shows "unop_rules (id_unop_st (unop_code opc) s) = Some (if s = BOOL then INT8 else s) \<and>
         resolve wfm (Expr_unaryop (unop_code opc) a) =
           (Expr_unaryop (unop_code opc) a', Inr (if s = BOOL then INT8 else s))"
proof -
  have t: "unop_rules (id_unop_st (unop_code opc) s) = Some (if s = BOOL then INT8 else s)"
    using assms(2) by (simp add: unop_rules_sign [OF assms(1)])
  have "resolve wfm (Expr_unaryop (unop_code opc) a) =
          (Expr_unaryop (unop_code opc) a', Inr (if s = BOOL then INT8 else s))"
    by (simp only: resolve_unaryop [OF assms(3)] t option.case)
  with t show ?thesis
    by (rule conjI)
qed

text \<open>Claim C7 at the negation of a column of type \<open>BOOL\<close>.\<close>

theorem sign_operators_rules_witness:
  "resolve
     \<lparr>frames = [(\<lparr>columns = [\<lparr>stype = BOOL, data = [1, 0], rowindex = None\<rparr>],
                   names = [''flag'']\<rparr>, None)],
      nrows = 2, groupby = None\<rparr>
     (Expr_unaryop (unop_code UMINUS) (expr_column 0 (SelStr ''flag''))) =
   (Expr_unaryop (unop_code UMINUS) (Expr_column 0 0 (SelStr ''flag'')), Inr INT8)"
proof -
  let ?w = "\<lparr>frames = [(\<lparr>columns = [\<lparr>stype = BOOL, data = [1, 0], rowindex = None\<rparr>],
                   names = [''flag'']\<rparr>, None)],
      nrows = 2, groupby = None\<rparr>"
  have a: "resolve ?w (expr_column 0 (SelStr ''flag'')) = (Expr_column 0 0 (SelStr ''flag''), Inr BOOL)"
    by (simp add: expr_column_def size_t_max_def nframes_def get_datatable_def xcolindex_def
          xassert_col_id_def ncols_def)
  have o: "UMINUS \<in> {UMINUS, UPLUS, ABS}"
    by simp
  have n: "BOOL \<in> set numeric_stypes"
    by (simp add: numeric_stypes_def)
  from sign_operators_rules [OF o n a] show ?thesis
    by simp
qed

text \<open>
  Claim C2. \<open>resolve\<close> of the nullary COUNT node returns \<open>INT64\<close> whatever the
  work-frame's grouping. With a grouping, \<open>evaluate_eager\<close> returns a column of type
  \<open>INT32\<close> with one value per group, the 32-bit difference of consecutive offsets; for
  group boundaries, offsets that are not negative and do not decrease, that is their
  difference as integers. Without a grouping it returns a column of type \<open>INT64\<close> with
  the single value \<open>nrows\<close> (a row count is below \<open>2 ^ 63\<close>, so that the cast to
  \<^verbatim>\<open>int64_t\<close> keeps it).
\<close>

theorem count_reduction:
  "resolve wfm (Expr_reduce_nullary opc) = (Expr_reduce_nullary opc, Inr INT64) \<and>
   (\<forall>g. groupby wfm = Some g \<longrightarrow>
      evaluate_eager K wfm (Expr_reduce_nullary 0) =
        Inr (Some \<lparr>stype = INT32,
                   data = map (\<lambda>i. sint (offsets g ! (i + 1) - offsets g ! i)) [0..<ngroups g],
                   rowindex = None\<rparr>)) \<and>
   (\<forall>g. groupby wfm = Some g \<and> sorted (map sint (offsets g)) \<and>
        (\<forall>x\<in>set (offsets g). 0 \<le> sint x) \<longrightarrow>
      evaluate_eager K wfm (Expr_reduce_nullary 0) =
        Inr (Some \<lparr>stype = INT32,
                   data = map (\<lambda>i. sint (offsets g ! (i + 1)) - sint (offsets g ! i))
                            [0..<ngroups g],
                   rowindex = None\<rparr>)) \<and>
   (groupby wfm = None \<and> nrows wfm < 2 ^ 63 \<longrightarrow>
      evaluate_eager K wfm (Expr_reduce_nullary 0) =
        Inr (Some \<lparr>stype = INT64, data = [int (nrows wfm)], rowindex = None\<rparr>))"
proof -
  have w: "evaluate_eager K wfm (Expr_reduce_nullary 0) =
        Inr (Some \<lparr>stype = INT32,
                   data = map (\<lambda>i. sint (offsets g ! (i + 1) - offsets g ! i)) [0..<ngroups g],
                   rowindex = None\<rparr>)"
    if "groupby wfm = Some g" for g
    using that by (simp add: new_data_column_def count_loop_all)
  have d: "evaluate_eager K wfm (Expr_reduce_nullary 0) =
        Inr (Some \<lparr>stype = INT32,
                   data = map (\<lambda>i. sint (offsets g ! (i + 1)) - sint (offsets g ! i))
                            [0..<ngroups g],
                   rowindex = None\<rparr>)"
    if "groupby wfm = Some g" and "sorted (map sint (offsets g))"
      and "\<forall>x\<in>set (offsets g). 0 \<le> sint x" for g
    unfolding w [OF that(1)] ngroups_def offsets_differences [OF that(2,3)] ..
  have n: "evaluate_eager K wfm (Expr_reduce_nullary 0) =
        Inr (Some \<lparr>stype = INT64, data = [int (nrows wfm)], rowindex = None\<rparr>)"
    if "groupby wfm = None" and "nrows wfm < 2 ^ 63"
    using that by (simp add: new_data_column_def cast_int64_small)
  show ?thesis
    using w d n by simp
qed

text \<open>Claim C2 at the offsets 0, 3, 7, 10, and at seven rows without a grouping.\<close>

theorem count_reduction_witness:
  "evaluate_eager
     \<lparr>k_binaryop = (\<lambda>c l r. Inr None), k_unaryop = (\<lambda>c a. Inr None),
      k_cast = (\<lambda>a s. Inr None), k_product = (\<lambda>a b. a)\<rparr>
     \<lparr>frames = [], nrows = 10, groupby = Some \<lparr>group_columns = [0], offsets = [0, 3, 7, 10]\<rparr>\<rparr>
     (Expr_reduce_nullary 0) =
   Inr (Some \<lparr>stype = INT32, data = [3, 4, 3], rowindex = None\<rparr>) \<and>
   evaluate_eager
     \<lparr>k_binaryop = (\<lambda>c l r. Inr None), k_unaryop = (\<lambda>c a. Inr None),
      k_cast = (\<lambda>a s. Inr None), k_product = (\<lambda>a b. a)\<rparr>
     \<lparr>frames = [], nrows = 7, groupby = None\<rparr> (Expr_reduce_nullary 0) =
   Inr (Some \<lparr>stype = INT64, data = [7], rowindex = None\<rparr>) \<and>
   resolve \<lparr>frames = [], nrows = 7, groupby = None\<rparr> (Expr_reduce_nullary 0) =
   (Expr_reduce_nullary 0, Inr INT64)"
proof -
  let ?K = "\<lparr>k_binaryop = (\<lambda>c l r. Inr None), k_unaryop = (\<lambda>c a. Inr None),
      k_cast = (\<lambda>a s. Inr None), k_product = (\<lambda>a b. a)\<rparr>"
  let ?g = "\<lparr>group_columns = [0], offsets = [0, 3, 7, 10]\<rparr>"
  let ?w1 = "\<lparr>frames = [], nrows = 10, groupby = Some ?g\<rparr>"
  let ?w2 = "\<lparr>frames = [], nrows = 7, groupby = None\<rparr>"
  have u: "[0..<3] = [0, 1, 2]"
    by (simp add: upt_rec)
  have h: "groupby ?w1 = Some ?g \<and> sorted (map sint (offsets ?g)) \<and>
           (\<forall>x\<in>set (offsets ?g). 0 \<le> sint x)"
    by simp
  note t = count_reduction [of ?w1 0 ?K, THEN conjunct2, THEN conjunct2, THEN conjunct1,
      THEN spec, of ?g, THEN mp, OF h]
  have "evaluate_eager ?K ?w1 (Expr_reduce_nullary 0) =
          Inr (Some \<lparr>stype = INT32, data = [3, 4, 3], rowindex = None\<rparr>)"
    using t by (simp add: ngroups_def u del: evaluate_eager.simps)
  moreover have "evaluate_eager ?K ?w2 (Expr_reduce_nullary 0) =
          Inr (Some \<lparr>stype = INT64, data = [7], rowindex = None\<rparr>)"
    using count_reduction [of ?w2 0 ?K]
    by (simp del: evaluate_eager.simps)
  moreover have "resolve ?w2 (Expr_reduce_nullary 0) = (Expr_reduce_nullary 0, Inr INT64)"
    using count_reduction [of ?w2 0 ?K] by (simp del: resolve.simps)
  ultimately show ?thesis
    by (intro conjI)
qed

text \<open>
  Claim C4. A column node is \<open>GtoONE\<close> (per group) exactly when its frame is frame 0, a
  grouping is active and its column index is one of the grouping key columns, and
  \<open>GtoALL\<close> (per row) otherwise; for the node that \<open>get_col_index\<close> leaves, that
  index is the resolved one. A literal and a nullary reduction are \<open>GtoONE\<close>. The mode of
  a binary node is the larger of its operands' modes, \<open>GtoONE\<close> being below
  \<open>GtoALL\<close>. A unary node and a cast have the mode of their operand.
\<close>

theorem groupby_mode_rules:
  "get_groupby_mode wfm (Expr_column fid cid sel) =
     (if fid = 0 \<and> (\<exists>g. groupby wfm = Some g \<and> cid \<in> set (group_columns g)) then GtoONE else GtoALL) \<and>
   (\<forall>e' i. get_col_index wfm (expr_column fid sel) = (e', Inr i) \<longrightarrow>
      get_groupby_mode wfm e' =
        (if fid = 0 \<and> (\<exists>g. groupby wfm = Some g \<and> i \<in> set (group_columns g)) then GtoONE else GtoALL)) \<and>
   get_groupby_mode wfm (Expr_literal c) = GtoONE \<and>
   get_groupby_mode wfm (Expr_reduce_nullary opc) = GtoONE \<and>
   get_groupby_mode wfm (Expr_binaryop opc l r) =
     (if get_groupby_mode wfm l = GtoALL \<or> get_groupby_mode wfm r = GtoALL then GtoALL else GtoONE) \<and>
   mode_code (get_groupby_mode wfm (Expr_binaryop opc l r)) =
     max (mode_code (get_groupby_mode wfm l)) (mode_code (get_groupby_mode wfm r)) \<and>
   mode_code GtoONE < mode_code GtoALL \<and>
   get_groupby_mode wfm (Expr_unaryop opc a) = get_groupby_mode wfm a \<and>
   get_groupby_mode wfm (Expr_cast a st) = get_groupby_mode wfm a"
proof -
  have col: "get_groupby_mode wfm (Expr_column fid j sel) =
     (if fid = 0 \<and> (\<exists>g. groupby wfm = Some g \<and> j \<in> set (group_columns g)) then GtoONE else GtoALL)"
    for j
    by (cases "groupby wfm") (simp_all add: has_groupby_def has_group_column_def)
  have res: "get_groupby_mode wfm e' =
        (if fid = 0 \<and> (\<exists>g. groupby wfm = Some g \<and> i \<in> set (group_columns g)) then GtoONE else GtoALL)"
    if "get_col_index wfm (expr_column fid sel) = (e', Inr i)" for e' i
    using get_col_index_node [OF that [unfolded expr_column_def]] col [of i] by simp
  have bin: "get_groupby_mode wfm (Expr_binaryop opc l r) =
     (if get_groupby_mode wfm l = GtoALL \<or> get_groupby_mode wfm r = GtoALL then GtoALL else GtoONE)"
    by (simp add: Let_def mode_of_max)
  have code: "mode_code (get_groupby_mode wfm (Expr_binaryop opc l r)) =
     max (mode_code (get_groupby_mode wfm l)) (mode_code (get_groupby_mode wfm r))"
    unfolding bin by (cases "get_groupby_mode wfm l"; cases "get_groupby_mode wfm r"; simp)
  show ?thesis
    using col [of cid] res bin code by simp
qed

text \<open>
  Claim C4 on a frame grouped by its first column: the key column, another column, their
  sums with each other and with a literal, and the node that resolving a reference to the
  second column leaves.
\<close>

theorem groupby_mode_rules_witness:
  "get_groupby_mode
     \<lparr>frames = [(\<lparr>columns = [\<lparr>stype = INT32, data = [7, 7], rowindex = None\<rparr>,
                              \<lparr>stype = FLOAT64, data = [2, 3], rowindex = None\<rparr>],
                   names = [''k'', ''x'']\<rparr>, None)],
      nrows = 2, groupby = Some \<lparr>group_columns = [0], offsets = [0, 2]\<rparr>\<rparr>
     (Expr_column 0 0 (SelStr ''k'')) = GtoONE \<and>
   get_groupby_mode
     \<lparr>frames = [(\<lparr>columns = [\<lparr>stype = INT32, data = [7, 7], rowindex = None\<rparr>,
                              \<lparr>stype = FLOAT64, data = [2, 3], rowindex = None\<rparr>],
                   names = [''k'', ''x'']\<rparr>, None)],
      nrows = 2, groupby = Some \<lparr>group_columns = [0], offsets = [0, 2]\<rparr>\<rparr>
     (Expr_column 0 1 (SelStr ''x'')) = GtoALL \<and>
   get_groupby_mode
     \<lparr>frames = [(\<lparr>columns = [\<lparr>stype = INT32, data = [7, 7], rowindex = None\<rparr>,
                              \<lparr>stype = FLOAT64, data = [2, 3], rowindex = None\<rparr>],
                   names = [''k'', ''x'']\<rparr>, None)],
      nrows = 2, groupby = Some \<lparr>group_columns = [0], offsets = [0, 2]\<rparr>\<rparr>
     (Expr_binaryop (biop_code PLUS) (Expr_column 0 0 (SelStr ''k''))
        (Expr_column 0 1 (SelStr ''x''))) = GtoALL \<and>
   get_groupby_mode
     \<lparr>frames = [(\<lparr>columns = [\<lparr>stype = INT32, data = [7, 7], rowindex = None\<rparr>,
                              \<lparr>stype = FLOAT64, data = [2, 3], rowindex = None\<rparr>],
                   names = [''k'', ''x'']\<rparr>, None)],
      nrows = 2, groupby = Some \<lparr>group_columns = [0], offsets = [0, 2]\<rparr>\<rparr>
     (Expr_binaryop (biop_code PLUS) (Expr_column 0 0 (SelStr ''k''))
        (Expr_literal \<lparr>stype = INT8, data = [5], rowindex = None\<rparr>)) = GtoONE \<and>
   get_groupby_mode
     \<lparr>frames = [(\<lparr>columns = [\<lparr>stype = INT32, data = [7, 7], rowindex = None\<rparr>,
                              \<lparr>stype = FLOAT64, data = [2, 3], rowindex = None\<rparr>],
                   names = [''k'', ''x'']\<rparr>, None)],
      nrows = 2, groupby = Some \<lparr>group_columns = [0], offsets = [0, 2]\<rparr>\<rparr>
     (fst (get_col_index
       \<lparr>frames = [(\<lparr>columns = [\<lparr>stype = INT32, data = [7, 7], rowindex = None\<rparr>,
                              \<lparr>stype = FLOAT64, data = [2, 3], rowindex = None\<rparr>],
                   names = [''k'', ''x'']\<rparr>, None)],
        nrows = 2, groupby = Some \<lparr>group_columns = [0], offsets = [0, 2]\<rparr>\<rparr>
       (expr_column 0 (SelInt 1)))) = GtoALL"
proof -
  let ?w = "\<lparr>frames = [(\<lparr>columns = [\<lparr>stype = INT32, data = [7, 7], rowindex = None\<rparr>,
                              \<lparr>stype = FLOAT64, data = [2, 3], rowindex = None\<rparr>],
                   names = [''k'', ''x'']\<rparr>, None)],
      nrows = 2, groupby = Some \<lparr>group_columns = [0], offsets = [0, 2]\<rparr>\<rparr>"
  let ?k = "Expr_column 0 0 (SelStr ''k'')"
  let ?x = "Expr_column 0 1 (SelStr ''x'')"
  let ?c = "\<lparr>stype = INT8, data = [5], rowindex = None\<rparr>"
  have k: "get_groupby_mode ?w ?k = GtoONE"
    using groupby_mode_rules [where wfm = ?w and fid = 0 and cid = 0 and sel = "SelStr ''k''"]
    by (simp del: get_groupby_mode.simps)
  have x: "get_groupby_mode ?w ?x = GtoALL"
    using groupby_mode_rules [where wfm = ?w and fid = 0 and cid = 1 and sel = "SelStr ''x''"]
    by (simp del: get_groupby_mode.simps)
  have kx: "get_groupby_mode ?w (Expr_binaryop (biop_code PLUS) ?k ?x) = GtoALL"
    using groupby_mode_rules [where wfm = ?w and opc = "biop_code PLUS" and l = ?k and r = ?x] k x
    by (simp del: get_groupby_mode.simps)
  have kc: "get_groupby_mode ?w (Expr_binaryop (biop_code PLUS) ?k (Expr_literal ?c)) = GtoONE"
    using groupby_mode_rules [where wfm = ?w and opc = "biop_code PLUS" and l = ?k
        and r = "Expr_literal ?c" and c = ?c] k
    by (simp del: get_groupby_mode.simps)
  have i: "get_col_index ?w (expr_column 0 (SelInt 1)) = (Expr_column 0 1 (SelInt 1), Inr 1)"
    by (simp add: expr_column_def size_t_max_def nframes_def get_datatable_def ncols_def
          to_int64_strict_def cast_int64_def cast_size_t_def xassert_col_id_def)
  have "get_groupby_mode ?w (Expr_column 0 1 (SelInt 1)) = GtoALL"
    using groupby_mode_rules [where wfm = ?w and fid = 0 and sel = "SelInt 1"] i
    by (simp del: get_groupby_mode.simps get_col_index.simps)
  then have r: "get_groupby_mode ?w (fst (get_col_index ?w (expr_column 0 (SelInt 1)))) = GtoALL"
    unfolding i by simp
  from k x kx kc r show ?thesis
    by (intro conjI)
qed

text \<open>
  Claim C5. Resolving a fresh column node raises the ValueError of a non-existing frame when
  the frame id is not below the number of frames. For a frame of \<open>n\<close> columns and an
  integer selector \<open>i\<close>, the node resolves exactly when \<open>- n \<le> i < n\<close>, to the index
  \<open>i\<close>, or \<open>i + n\<close> for a negative \<open>i\<close>; otherwise \<open>resolve\<close> raises the ValueError
  that carries \<open>i\<close> and \<open>n\<close>.
\<close>

theorem column_reference_resolution:
  "(nframes wfm \<le> fid \<longrightarrow>
      resolve wfm (expr_column fid sel) = (expr_column fid sel, Inl (ValueError NonExistingFrame))) \<and>
   (fid < nframes wfm \<and> ncols (get_datatable wfm fid) < 2 ^ 63 \<longrightarrow>
      (if - int (ncols (get_datatable wfm fid)) \<le> sint v \<and> sint v < int (ncols (get_datatable wfm fid))
       then get_col_index wfm (expr_column fid (SelInt v)) =
              (Expr_column fid
                 (nat (if sint v < 0 then sint v + int (ncols (get_datatable wfm fid)) else sint v))
                 (SelInt v),
               Inr (nat (if sint v < 0 then sint v + int (ncols (get_datatable wfm fid)) else sint v))) \<and>
            resolve wfm (expr_column fid (SelInt v)) =
              (Expr_column fid
                 (nat (if sint v < 0 then sint v + int (ncols (get_datatable wfm fid)) else sint v))
                 (SelInt v),
               Inr (stype (columns (get_datatable wfm fid) !
                      nat (if sint v < 0 then sint v + int (ncols (get_datatable wfm fid)) else sint v))))
       else resolve wfm (expr_column fid (SelInt v)) =
              (expr_column fid (SelInt v),
               Inl (ValueError (InvalidColumnIndex (sint v) (int (ncols (get_datatable wfm fid))))))))"
proof (intro conjI impI)
  assume "nframes wfm \<le> fid"
  then show "resolve wfm (expr_column fid sel) = (expr_column fid sel, Inl (ValueError NonExistingFrame))"
    by (rule resolve_column_error [OF get_col_index_no_frame])
next
  let ?n = "int (ncols (get_datatable wfm fid))"
  let ?j = "if sint v < 0 then sint v + ?n else sint v"
  assume a: "fid < nframes wfm \<and> ncols (get_datatable wfm fid) < 2 ^ 63"
  then have f: "fid < nframes wfm" and n: "ncols (get_datatable wfm fid) < 2 ^ 63"
    by simp_all
  note g = get_col_index_int [OF f n, of v]
  show "if - ?n \<le> sint v \<and> sint v < ?n
        then get_col_index wfm (expr_column fid (SelInt v)) =
               (Expr_column fid (nat ?j) (SelInt v), Inr (nat ?j)) \<and>
             resolve wfm (expr_column fid (SelInt v)) =
               (Expr_column fid (nat ?j) (SelInt v),
                Inr (stype (columns (get_datatable wfm fid) ! nat ?j)))
        else resolve wfm (expr_column fid (SelInt v)) =
               (expr_column fid (SelInt v), Inl (ValueError (InvalidColumnIndex (sint v) ?n)))"
  proof (cases "- ?n \<le> sint v \<and> sint v < ?n")
    case True
    then have i: "get_col_index wfm (expr_column fid (SelInt v)) =
                    (Expr_column fid (nat ?j) (SelInt v), Inr (nat ?j))"
      using g by (simp del: get_col_index.simps)
    have x: "nat ?j < ncols (get_datatable wfm fid)"
      using True by auto
    show ?thesis
      using True i resolve_column [OF i f x] by (simp del: get_col_index.simps resolve.simps)
  next
    case False
    then have i: "get_col_index wfm (expr_column fid (SelInt v)) =
                    (expr_column fid (SelInt v), Inl (ValueError (InvalidColumnIndex (sint v) ?n)))"
      using g by (simp del: get_col_index.simps)
    show ?thesis
      using False resolve_column_error [OF i] by (simp del: get_col_index.simps resolve.simps)
  qed
qed

text \<open>Claim C5 on a frame of five columns: the selectors -1, -6 and 5, and the frame id 1.\<close>

theorem column_reference_resolution_witness:
  "get_col_index
     \<lparr>frames = [(\<lparr>columns = [\<lparr>stype = INT32, data = [1], rowindex = None\<rparr>,
                              \<lparr>stype = INT32, data = [2], rowindex = None\<rparr>,
                              \<lparr>stype = INT32, data = [3], rowindex = None\<rparr>,
                              \<lparr>stype = INT32, data = [4], rowindex = None\<rparr>,
                              \<lparr>stype = STR32, data = [5], rowindex = None\<rparr>],
                   names = [''a'', ''b'', ''c'', ''d'', ''e'']\<rparr>, None)],
      nrows = 2, groupby = None\<rparr>
     (expr_column 0 (SelInt (- 1))) = (Expr_column 0 4 (SelInt (- 1)), Inr 4) \<and>
   resolve
     \<lparr>frames = [(\<lparr>columns = [\<lparr>stype = INT32, data = [1], rowindex = None\<rparr>,
                              \<lparr>stype = INT32, data = [2], rowindex = None\<rparr>,
                              \<lparr>stype = INT32, data = [3], rowindex = None\<rparr>,
                              \<lparr>stype = INT32, data = [4], rowindex = None\<rparr>,
                              \<lparr>stype = STR32, data = [5], rowindex = None\<rparr>],
                   names = [''a'', ''b'', ''c'', ''d'', ''e'']\<rparr>, None)],
      nrows = 2, groupby = None\<rparr>
     (expr_column 0 (SelInt (- 1))) = (Expr_column 0 4 (SelInt (- 1)), Inr STR32) \<and>
   resolve
     \<lparr>frames = [(\<lparr>columns = [\<lparr>stype = INT32, data = [1], rowindex = None\<rparr>,
                              \<lparr>stype = INT32, data = [2], rowindex = None\<rparr>,
                              \<lparr>stype = INT32, data = [3], rowindex = None\<rparr>,
                              \<lparr>stype = INT32, data = [4], rowindex = None\<rparr>,
                              \<lparr>stype = STR32, data = [5], rowindex = None\<rparr>],
                   names = [''a'', ''b'', ''c'', ''d'', ''e'']\<rparr>, None)],
      nrows = 2, groupby = None\<rparr>
     (expr_column 0 (SelInt (- 6))) =
     (expr_column 0 (SelInt (- 6)), Inl (ValueError (InvalidColumnIndex (- 6) 5))) \<and>
   resolve
     \<lparr>frames = [(\<lparr>columns = [\<lparr>stype = INT32, data = [1], rowindex = None\<rparr>,
                              \<lparr>stype = INT32, data = [2], rowindex = None\<rparr>,
                              \<lparr>stype = INT32, data = [3], rowindex = None\<rparr>,
                              \<lparr>stype = INT32, data = [4], rowindex = None\<rparr>,
                              \<lparr>stype = STR32, data = [5], rowindex = None\<rparr>],
                   names = [''a'', ''b'', ''c'', ''d'', ''e'']\<rparr>, None)],
      nrows = 2, groupby = None\<rparr>
     (expr_column 0 (SelInt 5)) =
     (expr_column 0 (SelInt 5), Inl (ValueError (InvalidColumnIndex 5 5))) \<and>
   resolve
     \<lparr>frames = [(\<lparr>columns = [\<lparr>stype = INT32, data = [1], rowindex = None\<rparr>,
                              \<lparr>stype = INT32, data = [2], rowindex = None\<rparr>,
                              \<lparr>stype = INT32, data = [3], rowindex = None\<rparr>,
                              \<lparr>stype = INT32, data = [4], rowindex = None\<rparr>,
                              \<lparr>stype = STR32, data = [5], rowindex = None\<rparr>],
                   names = [''a'', ''b'', ''c'', ''d'', ''e'']\<rparr>, None)],
      nrows = 2, groupby = None\<rparr>
     (expr_column 1 (SelInt 0)) =
     (expr_column 1 (SelInt 0), Inl (ValueError NonExistingFrame))"
proof -
  let ?w = "\<lparr>frames = [(\<lparr>columns = [\<lparr>stype = INT32, data = [1], rowindex = None\<rparr>,
                              \<lparr>stype = INT32, data = [2], rowindex = None\<rparr>,
                              \<lparr>stype = INT32, data = [3], rowindex = None\<rparr>,
                              \<lparr>stype = INT32, data = [4], rowindex = None\<rparr>,
                              \<lparr>stype = STR32, data = [5], rowindex = None\<rparr>],
                   names = [''a'', ''b'', ''c'', ''d'', ''e'']\<rparr>, None)],
      nrows = 2, groupby = None\<rparr>"
  have f: "nframes ?w = 1" and n: "ncols (get_datatable ?w 0) = 5"
    by (simp_all add: nframes_def ncols_def get_datatable_def)
  have m: "sint (- 1 :: 64 word) = - 1" "sint (- 6 :: 64 word) = - 6" "sint (5 :: 64 word) = 5"
    by simp_all
  have c: "stype (columns (get_datatable ?w 0) ! 4) = STR32"
    by (simp add: get_datatable_def)
  have "get_col_index ?w (expr_column 0 (SelInt (- 1))) = (Expr_column 0 4 (SelInt (- 1)), Inr 4) \<and>
        resolve ?w (expr_column 0 (SelInt (- 1))) = (Expr_column 0 4 (SelInt (- 1)), Inr STR32)"
    using column_reference_resolution [of ?w 0 SelOther "- 1"]
    by (simp add: f n m c del: get_col_index.simps resolve.simps)
  moreover have "resolve ?w (expr_column 0 (SelInt (- 6))) =
        (expr_column 0 (SelInt (- 6)), Inl (ValueError (InvalidColumnIndex (- 6) 5)))"
    using column_reference_resolution [of ?w 0 SelOther "- 6"]
    by (simp add: f n m del: get_col_index.simps resolve.simps)
  moreover have "resolve ?w (expr_column 0 (SelInt 5)) =
        (expr_column 0 (SelInt 5), Inl (ValueError (InvalidColumnIndex 5 5)))"
    using column_reference_resolution [of ?w 0 SelOther 5]
    by (simp add: f n m del: get_col_index.simps resolve.simps)
  moreover have "resolve ?w (expr_column 1 (SelInt 0)) =
        (expr_column 1 (SelInt 0), Inl (ValueError NonExistingFrame))"
    using column_reference_resolution [of ?w 1 "SelInt 0" 0]
    by (simp add: f del: get_col_index.simps resolve.simps)
  ultimately show ?thesis
    by simp
qed

text \<open>
  Claim C8. For every node of this file: after a call of \<open>resolve\<close> that returned a
  storage type, a second call on the node as the first call left it returns the same
  storage type and leaves the node as it is (the cached column index is not written
  again), so that \<open>evaluate_eager\<close> gives the same after it as before it.
\<close>

theorem resolve_idempotent:
  assumes "resolve wfm e = (e1, Inr st)"
  shows "resolve wfm e1 = (e1, Inr st) \<and>
         evaluate_eager K wfm (fst (resolve wfm e1)) = evaluate_eager K wfm e1"
  using resolve_again [OF assms] by simp

text \<open>
  Claim C8 at a cast of the last column of a frame of two columns: the first call fills the
  cached index, the second returns the same and leaves the node.
\<close>

theorem resolve_idempotent_witness:
  "resolve
     \<lparr>frames = [(\<lparr>columns = [\<lparr>stype = INT32, data = [7, 7], rowindex = None\<rparr>,
                              \<lparr>stype = FLOAT64, data = [2, 3], rowindex = None\<rparr>],
                   names = [''k'', ''x'']\<rparr>, None)],
      nrows = 2, groupby = None\<rparr>
     (Expr_cast (expr_column 0 (SelInt (- 1))) INT64) =
     (Expr_cast (Expr_column 0 1 (SelInt (- 1))) INT64, Inr INT64) \<and>
   resolve
     \<lparr>frames = [(\<lparr>columns = [\<lparr>stype = INT32, data = [7, 7], rowindex = None\<rparr>,
                              \<lparr>stype = FLOAT64, data = [2, 3], rowindex = None\<rparr>],
                   names = [''k'', ''x'']\<rparr>, None)],
      nrows = 2, groupby = None\<rparr>
     (Expr_cast (Expr_column 0 1 (SelInt (- 1))) INT64) =
     (Expr_cast (Expr_column 0 1 (SelInt (- 1))) INT64, Inr INT64)"
proof -
  let ?w = "\<lparr>frames = [(\<lparr>columns = [\<lparr>stype = INT32, data = [7, 7], rowindex = None\<rparr>,
                              \<lparr>stype = FLOAT64, data = [2, 3], rowindex = None\<rparr>],
                   names = [''k'', ''x'']\<rparr>, None)],
      nrows = 2, groupby = None\<rparr>"
  let ?K = "\<lparr>k_binaryop = (\<lambda>c l r. Inr None), k_unaryop = (\<lambda>c a. Inr None),
      k_cast = (\<lambda>a s. Inr None), k_product = (\<lambda>a b. a)\<rparr>"
  have first: "resolve ?w (Expr_cast (expr_column 0 (SelInt (- 1))) INT64) =
                 (Expr_cast (Expr_column 0 1 (SelInt (- 1))) INT64, Inr INT64)"
    by (simp add: expr_column_def size_t_max_def nframes_def get_datatable_def ncols_def
          to_int64_strict_def cast_int64_def cast_size_t_def xassert_col_id_def)
  from resolve_idempotent [OF first, of ?K] have
    "resolve ?w (Expr_cast (Expr_column 0 1 (SelInt (- 1))) INT64) =
       (Expr_cast (Expr_column 0 1 (SelInt (- 1))) INT64, Inr INT64)"
    by (rule conjunct1)
  with first show ?thesis
    by (rule conjI)
qed

text \<open>
  Claim C10. \<open>get_groupby_mode\<close> of a column node returns a mode only and reads the
  cached column index as it stands: it tests that index, and no other, for membership in
  the grouping key columns. A fresh node holds \<^verbatim>\<open>size_t(-1)\<close>, which is no column
  of the grouping; so a reference to a key column of frame 0 under an active grouping is
  \<open>GtoALL\<close> (per row) before \<open>resolve\<close>, and \<open>GtoONE\<close> (per group) for the node that
  \<open>resolve\<close> leaves.
\<close>

theorem groupby_mode_reads_cached_index:
  assumes "groupby wfm = Some g" and "size_t_max \<notin> set (group_columns g)"
    and "get_col_index wfm (expr_column 0 sel) = (e', Inr i)" and "i \<in> set (group_columns g)"
  shows "get_groupby_mode wfm (expr_column 0 sel) = GtoALL \<and>
         fst (resolve wfm (expr_column 0 sel)) = Expr_column 0 i sel \<and>
         get_groupby_mode wfm (fst (resolve wfm (expr_column 0 sel))) = GtoONE \<and>
         get_groupby_mode wfm (Expr_column fid cid sel) =
           (if fid = 0 \<and> has_group_column g cid then GtoONE else GtoALL)"
proof -
  have e: "e' = Expr_column 0 i sel"
    using assms(3) unfolding expr_column_def by (rule get_col_index_node)
  have r: "fst (resolve wfm (expr_column 0 sel)) = Expr_column 0 i sel"
    using assms(3) e unfolding expr_column_def by (simp del: get_col_index.simps)
  have a: "get_groupby_mode wfm (expr_column 0 sel) = GtoALL"
    using assms(1,2) by (simp add: expr_column_def has_groupby_def has_group_column_def)
  have b: "get_groupby_mode wfm (Expr_column 0 i sel) = GtoONE"
    using assms(1,4) by (simp add: has_groupby_def has_group_column_def)
  have c: "get_groupby_mode wfm (Expr_column fid cid sel) =
           (if fid = 0 \<and> has_group_column g cid then GtoONE else GtoALL)"
    using assms(1) by (simp add: has_groupby_def)
  show ?thesis
    using a b c r by simp
qed

text \<open>Claim C10 at a reference by name to the key column of a grouped frame.\<close>

theorem groupby_mode_reads_cached_index_witness:
  "get_groupby_mode
     \<lparr>frames = [(\<lparr>columns = [\<lparr>stype = INT32, data = [7, 7], rowindex = None\<rparr>,
                              \<lparr>stype = FLOAT64, data = [2, 3], rowindex = None\<rparr>],
                   names = [''k'', ''x'']\<rparr>, None)],
      nrows = 2, groupby = Some \<lparr>group_columns = [0], offsets = [0, 2]\<rparr>\<rparr>
     (expr_column 0 (SelStr ''k'')) = GtoALL \<and>
   get_groupby_mode
     \<lparr>frames = [(\<lparr>columns = [\<lparr>stype = INT32, data = [7, 7], rowindex = None\<rparr>,
                              \<lparr>stype = FLOAT64, data = [2, 3], rowindex = None\<rparr>],
                   names = [''k'', ''x'']\<rparr>, None)],
      nrows = 2, groupby = Some \<lparr>group_columns = [0], offsets = [0, 2]\<rparr>\<rparr>
     (fst (resolve
       \<lparr>frames = [(\<lparr>columns = [\<lparr>stype = INT32, data = [7, 7], rowindex = None\<rparr>,
                              \<lparr>stype = FLOAT64, data = [2, 3], rowindex = None\<rparr>],
                   names = [''k'', ''x'']\<rparr>, None)],
        nrows = 2, groupby = Some \<lparr>group_columns = [0], offsets = [0, 2]\<rparr>\<rparr>
       (expr_column 0 (SelStr ''k'')))) = GtoONE"
proof -
  let ?g = "\<lparr>group_columns = [0], offsets = [0, 2]\<rparr>"
  let ?w = "\<lparr>frames = [(\<lparr>columns = [\<lparr>stype = INT32, data = [7, 7], rowindex = None\<rparr>,
                              \<lparr>stype = FLOAT64, data = [2, 3], rowindex = None\<rparr>],
                   names = [''k'', ''x'']\<rparr>, None)],
      nrows = 2, groupby = Some ?g\<rparr>"
  have g: "groupby ?w = Some ?g"
    by simp
  have s: "size_t_max \<notin> set (group_columns ?g)"
    by (simp add: size_t_max_def)
  have i: "get_col_index ?w (expr_column 0 (SelStr ''k'')) = (Expr_column 0 0 (SelStr ''k''), Inr 0)"
    by (simp add: expr_column_def size_t_max_def nframes_def get_datatable_def ncols_def
          xcolindex_def xassert_col_id_def)
  have m: "0 \<in> set (group_columns ?g)"
    by simp
  note t = groupby_mode_reads_cached_index [OF g s i m, of 0 0]
  have a: "get_groupby_mode ?w (expr_column 0 (SelStr ''k'')) = GtoALL"
    using t by (rule conjunct1)
  have b: "get_groupby_mode ?w (fst (resolve ?w (expr_column 0 (SelStr ''k'')))) = GtoONE"
    using t by (rule conjunct1 [OF conjunct2 [OF conjunct2]])
  from a b show ?thesis
    by (rule conjI)
qed

text \<open>
  Claim C9. For each node kind the factory raises a TypeError that carries the expected and
  the received count when the number of arguments is not the kind's arity: 2 for a column,
  3 for a binary operator, 1 for a literal, 2 for a unary operator, 2 for a cast, 1 for a
  nullary reduction, 3 for a string function. With the right number of arguments (and an
  operator code that converts), it raises a TypeError when an argument in the place of a
  subexpression is not a \<^verbatim>\<open>base_expr\<close> object.
\<close>

theorem factory_argument_checks:
  "(length va \<noteq> 2 \<longrightarrow> m_init (expr_code COL) va = Inl (TypeError (WrongArgsCount 2 (length va)))) \<and>
   (length va \<noteq> 3 \<longrightarrow> m_init (expr_code BINOP) va = Inl (TypeError (WrongArgsCount 3 (length va)))) \<and>
   (length va \<noteq> 1 \<longrightarrow> m_init (expr_code LITERAL) va = Inl (TypeError (WrongArgsCount 1 (length va)))) \<and>
   (length va \<noteq> 2 \<longrightarrow> m_init (expr_code UNOP) va = Inl (TypeError (WrongArgsCount 2 (length va)))) \<and>
   (length va \<noteq> 2 \<longrightarrow> m_init (expr_code CAST) va = Inl (TypeError (WrongArgsCount 2 (length va)))) \<and>
   (length va \<noteq> 1 \<longrightarrow> m_init (expr_code NUREDUCE) va = Inl (TypeError (WrongArgsCount 1 (length va)))) \<and>
   (length va \<noteq> 3 \<longrightarrow> m_init (expr_code STRINGFN) va = Inl (TypeError (WrongArgsCount 3 (length va)))) \<and>
   (length va = 3 \<and> to_size_t (va ! 0) = Inr c \<and>
      ((\<forall>e. va ! 1 \<noteq> PyBaseExpr e) \<or> (\<forall>e. va ! 2 \<noteq> PyBaseExpr e)) \<longrightarrow>
      m_init (expr_code BINOP) va = Inl (TypeError NotBaseExpr)) \<and>
   (length va = 2 \<and> to_size_t (va ! 0) = Inr c \<and> (\<forall>e. va ! 1 \<noteq> PyBaseExpr e) \<longrightarrow>
      m_init (expr_code UNOP) va = Inl (TypeError NotBaseExpr)) \<and>
   (length va = 2 \<and> (\<forall>e. va ! 0 \<noteq> PyBaseExpr e) \<longrightarrow>
      m_init (expr_code CAST) va = Inl (TypeError NotBaseExpr)) \<and>
   (length va = 3 \<and> to_size_t (va ! 0) = Inr c \<and> (\<forall>e. va ! 1 \<noteq> PyBaseExpr e) \<longrightarrow>
      m_init (expr_code STRINGFN) va = Inl (TypeError NotBaseExpr))"
proof (intro conjI impI)
  assume "length va \<noteq> 2"
  then show "m_init (expr_code COL) va = Inl (TypeError (WrongArgsCount 2 (length va)))"
    by (simp add: m_init_def check_args_count_fails)
next
  assume "length va \<noteq> 3"
  then show "m_init (expr_code BINOP) va = Inl (TypeError (WrongArgsCount 3 (length va)))"
    by (simp add: m_init_def check_args_count_fails)
next
  assume "length va \<noteq> 1"
  then show "m_init (expr_code LITERAL) va = Inl (TypeError (WrongArgsCount 1 (length va)))"
    by (simp add: m_init_def check_args_count_fails)
next
  assume "length va \<noteq> 2"
  then show "m_init (expr_code UNOP) va = Inl (TypeError (WrongArgsCount 2 (length va)))"
    by (simp add: m_init_def check_args_count_fails)
next
  assume "length va \<noteq> 2"
  then show "m_init (expr_code CAST) va = Inl (TypeError (WrongArgsCount 2 (length va)))"
    by (simp add: m_init_def check_args_count_fails)
next
  assume "length va \<noteq> 1"
  then show "m_init (expr_code NUREDUCE) va = Inl (TypeError (WrongArgsCount 1 (length va)))"
    by (simp add: m_init_def check_args_count_fails)
next
  assume "length va \<noteq> 3"
  then show "m_init (expr_code STRINGFN) va = Inl (TypeError (WrongArgsCount 3 (length va)))"
    by (simp add: m_init_def check_args_count_fails)
next
  assume a: "length va = 3 \<and> to_size_t (va ! 0) = Inr c \<and>
      ((\<forall>e. va ! 1 \<noteq> PyBaseExpr e) \<or> (\<forall>e. va ! 2 \<noteq> PyBaseExpr e))"
  show "m_init (expr_code BINOP) va = Inl (TypeError NotBaseExpr)"
  proof (cases "\<forall>e. va ! 1 \<noteq> PyBaseExpr e")
    case True
    then show ?thesis
      using a by (simp add: m_init_def check_args_count_def to_base_expr_fails and_then_def)
  next
    case False
    then obtain e where e: "va ! 1 = PyBaseExpr e"
      by blast
    from False a have "\<forall>e. va ! 2 \<noteq> PyBaseExpr e"
      by blast
    then show ?thesis
      using a e by (simp add: m_init_def check_args_count_def to_base_expr_fails and_then_def)
  qed
next
  assume "length va = 2 \<and> to_size_t (va ! 0) = Inr c \<and> (\<forall>e. va ! 1 \<noteq> PyBaseExpr e)"
  then show "m_init (expr_code UNOP) va = Inl (TypeError NotBaseExpr)"
    by (simp add: m_init_def check_args_count_def to_base_expr_fails and_then_def)
next
  assume "length va = 2 \<and> (\<forall>e. va ! 0 \<noteq> PyBaseExpr e)"
  then show "m_init (expr_code CAST) va = Inl (TypeError NotBaseExpr)"
    by (simp add: m_init_def check_args_count_def to_base_expr_fails and_then_def)
next
  assume "length va = 3 \<and> to_size_t (va ! 0) = Inr c \<and> (\<forall>e. va ! 1 \<noteq> PyBaseExpr e)"
  then show "m_init (expr_code STRINGFN) va = Inl (TypeError NotBaseExpr)"
    by (simp add: m_init_def check_args_count_def to_base_expr_fails and_then_def)
qed

text \<open>
  Claim C9 at one wrong argument count for each node kind, and at an argument that is no
  \<^verbatim>\<open>base_expr\<close> object in each place of a subexpression.
\<close>

theorem factory_argument_checks_witness:
  "m_init (expr_code BINOP)
     [PyInt 1, PyBaseExpr (Expr_literal \<lparr>stype = INT8, data = [5], rowindex = None\<rparr>)] =
     Inl (TypeError (WrongArgsCount 3 2)) \<and>
   m_init (expr_code COL) [PyInt 0 :: expr pyobj] = Inl (TypeError (WrongArgsCount 2 1)) \<and>
   m_init (expr_code LITERAL) ([] :: expr pyobj list) = Inl (TypeError (WrongArgsCount 1 0)) \<and>
   m_init (expr_code UNOP) [PyInt 2 :: expr pyobj] = Inl (TypeError (WrongArgsCount 2 1)) \<and>
   m_init (expr_code CAST) [PyInt 2 :: expr pyobj] = Inl (TypeError (WrongArgsCount 2 1)) \<and>
   m_init (expr_code NUREDUCE) [PyInt 0 :: expr pyobj, PyInt 0] = Inl (TypeError (WrongArgsCount 1 2)) \<and>
   m_init (expr_code STRINGFN) [PyInt 1 :: expr pyobj] = Inl (TypeError (WrongArgsCount 3 1)) \<and>
   m_init (expr_code BINOP)
     [PyInt 1, PyBaseExpr (Expr_literal \<lparr>stype = INT8, data = [5], rowindex = None\<rparr>), PyStr ''x''] =
     Inl (TypeError NotBaseExpr) \<and>
   m_init (expr_code UNOP) [PyInt 2 :: expr pyobj, PyInt 7] = Inl (TypeError NotBaseExpr) \<and>
   m_init (expr_code CAST) [PyStr ''x'' :: expr pyobj, PyInt 5] = Inl (TypeError NotBaseExpr) \<and>
   m_init (expr_code STRINGFN) [PyInt 1 :: expr pyobj, PyOther, PyStr ''a''] = Inl (TypeError NotBaseExpr)"
proof -
  let ?e = "PyBaseExpr (Expr_literal \<lparr>stype = INT8, data = [5], rowindex = None\<rparr>) :: expr pyobj"
  have "m_init (expr_code BINOP) [PyInt 1, ?e] = Inl (TypeError (WrongArgsCount 3 2))"
    using factory_argument_checks [of "[PyInt 1, ?e]" 1]
    by (simp del: expr_code.simps)
  moreover have "m_init (expr_code COL) [PyInt 0 :: expr pyobj] = Inl (TypeError (WrongArgsCount 2 1))"
    using factory_argument_checks [of "[PyInt 0 :: expr pyobj]" 0]
    by (simp del: expr_code.simps)
  moreover have "m_init (expr_code LITERAL) ([] :: expr pyobj list) = Inl (TypeError (WrongArgsCount 1 0))"
    using factory_argument_checks [of "[] :: expr pyobj list" 0]
    by (simp del: expr_code.simps)
  moreover have "m_init (expr_code UNOP) [PyInt 2 :: expr pyobj] = Inl (TypeError (WrongArgsCount 2 1))"
    using factory_argument_checks [of "[PyInt 2 :: expr pyobj]" 0]
    by (simp del: expr_code.simps)
  moreover have "m_init (expr_code CAST) [PyInt 2 :: expr pyobj] = Inl (TypeError (WrongArgsCount 2 1))"
    using factory_argument_checks [of "[PyInt 2 :: expr pyobj]" 0]
    by (simp del: expr_code.simps)
  moreover have "m_init (expr_code NUREDUCE) [PyInt 0 :: expr pyobj, PyInt 0] =
      Inl (TypeError (WrongArgsCount 1 2))"
    using factory_argument_checks [of "[PyInt 0 :: expr pyobj, PyInt 0]" 0]
    by (simp del: expr_code.simps)
  moreover have "m_init (expr_code STRINGFN) [PyInt 1 :: expr pyobj] = Inl (TypeError (WrongArgsCount 3 1))"
    using factory_argument_checks [of "[PyInt 1 :: expr pyobj]" 0]
    by (simp del: expr_code.simps)
  moreover have "m_init (expr_code BINOP) [PyInt 1, ?e, PyStr ''x''] = Inl (TypeError NotBaseExpr)"
    using factory_argument_checks [of "[PyInt 1, ?e, PyStr ''x'']" 1]
    by (simp del: expr_code.simps)
  moreover have "m_init (expr_code UNOP) [PyInt 2 :: expr pyobj, PyInt 7] = Inl (TypeError NotBaseExpr)"
    using factory_argument_checks [of "[PyInt 2 :: expr pyobj, PyInt 7]" 2]
    by (simp del: expr_code.simps)
  moreover have "m_init (expr_code CAST) [PyStr ''x'' :: expr pyobj, PyInt 5] = Inl (TypeError NotBaseExpr)"
    using factory_argument_checks [of "[PyStr ''x'' :: expr pyobj, PyInt 5]" 0]
    by (simp del: expr_code.simps)
  moreover have "m_init (expr_code STRINGFN) [PyInt 1 :: expr pyobj, PyOther, PyStr ''a''] =
      Inl (TypeError NotBaseExpr)"
    using factory_argument_checks [of "[PyInt 1 :: expr pyobj, PyOther, PyStr ''a'']" 1]
    by (simp del: expr_code.simps)
  ultimately show ?thesis
    by (intro conjI)
qed

end
